theory Spec2Isabelle
  imports Complex_Main "HOL-Library.Char_ord" "HOL-Library.List_Lexorder" "HOL-Library.AList"
    "HOL-Library.Multiset"
begin

section \<open>Values\<close>

text \<open>
  Go's \<^verbatim>\<open>float64\<close>, as far as the sorted-set commands use it: a score is parsed, stored,
  compared with \<^verbatim>\<open>>=\<close> and \<^verbatim>\<open>>\<close> and formatted, and no arithmetic is done on it. The
  finite doubles are a subset of the reals and compare as reals; the two infinities and
  NaN are values of their own. A comparison with NaN is false.
\<close>

datatype float64 = NaN | NegInf | Finite real | PosInf

fun f64_gt :: "float64 \<Rightarrow> float64 \<Rightarrow> bool" where
  "f64_gt NaN b = False"
| "f64_gt a NaN = False"
| "f64_gt NegInf b = False"
| "f64_gt (Finite x) NegInf = True"
| "f64_gt (Finite x) (Finite y) = (x > y)"
| "f64_gt (Finite x) PosInf = False"
| "f64_gt PosInf PosInf = False"
| "f64_gt PosInf b = True"

fun f64_ge :: "float64 \<Rightarrow> float64 \<Rightarrow> bool" where
  "f64_ge NaN b = False"
| "f64_ge a NaN = False"
| "f64_ge a b = (a = b \<or> f64_gt a b)"

text \<open>Strings are byte sequences, compared bytewise and lexicographically, as Go's
  \<^verbatim>\<open><\<close> and \<^verbatim>\<open>>=\<close> on \<^verbatim>\<open>string\<close> do: the order of \<^typ>\<open>char list\<close>.\<close>

text \<open>An element of a sorted set snapshot (\<^verbatim>\<open>ssElem\<close>, \<^verbatim>\<open>ssElems\<close>).\<close>

record ssElem =
  score :: float64
  member :: string

type_synonym ssElems = "ssElem list"

section \<open>Range helpers\<close>

text \<open>The loops \<^verbatim>\<open>for i, m := range members { if P m { ...; break } }\<close> all look for the
  first index at which a test holds.\<close>

fun firstIndex :: "('a \<Rightarrow> bool) \<Rightarrow> 'a list \<Rightarrow> nat option" where
  "firstIndex P [] = None"
| "firstIndex P (x # xs) = (if P x then Some 0 else map_option Suc (firstIndex P xs))"

text \<open>\<^verbatim>\<open>members = members[i:]\<close> at the first hit, and nothing when the loop ends without one.\<close>

definition sliceFromFirst :: "('a \<Rightarrow> bool) \<Rightarrow> 'a list \<Rightarrow> 'a list" where
  "sliceFromFirst P members =
     (case firstIndex P members of Some i \<Rightarrow> drop i members | None \<Rightarrow> members)"

text \<open>\<^verbatim>\<open>members = members[:i]\<close> at the first hit, and nothing when the loop ends without one.\<close>

definition sliceToFirst :: "('a \<Rightarrow> bool) \<Rightarrow> 'a list \<Rightarrow> 'a list" where
  "sliceToFirst P members =
     (case firstIndex P members of Some i \<Rightarrow> take i members | None \<Rightarrow> members)"

definition withSSRange :: "ssElems \<Rightarrow> float64 \<Rightarrow> bool \<Rightarrow> float64 \<Rightarrow> bool \<Rightarrow> ssElems" where
  "withSSRange members min' minIncl max' maxIncl =
     (let members1 =
            (if minIncl then sliceFromFirst (\<lambda>m. f64_ge (score m) min') members
             else sliceFromFirst (\<lambda>m. f64_gt (score m) min') members)
      in if maxIncl then sliceToFirst (\<lambda>m. f64_gt (score m) max') members1
         else sliceToFirst (\<lambda>m. f64_ge (score m) max') members1)"

text \<open>\<^verbatim>\<open>return nil\<close> is the empty slice.\<close>

definition withLexRange :: "string list \<Rightarrow> string \<Rightarrow> bool \<Rightarrow> string \<Rightarrow> bool \<Rightarrow> string list" where
  "withLexRange members min' minIncl max' maxIncl =
     (if max' = ''-'' \<or> min' = ''+'' then []
      else
        let members1 =
              (if min' \<noteq> ''-'' then
                 (if minIncl then sliceFromFirst (\<lambda>m. m \<ge> min') members
                  else sliceFromFirst (\<lambda>m. m > min') members)
               else members);
            members2 =
              (if max' \<noteq> ''+'' then
                 (if maxIncl then sliceToFirst (\<lambda>m. m > max') members1
                  else sliceToFirst (\<lambda>m. m \<ge> max') members1)
               else members1)
        in members2)"

text \<open>\<^verbatim>\<open>reverseSlice\<close> and \<^verbatim>\<open>reverseElems\<close> swap the elements \<open>i\<close> and \<open>len - 1 - i\<close> in place, for
  \<open>i\<close> below \<open>len / 2\<close>.\<close>

definition swapStep :: "nat \<Rightarrow> 'a list \<Rightarrow> 'a list" where
  "swapStep i o' = (let other = length o' - 1 - i in o'[i := o' ! other, other := o' ! i])"

definition reverseSlice :: "string list \<Rightarrow> string list" where
  "reverseSlice o' = fold swapStep [0 ..< length o' div 2] o'"

definition reverseElems :: "ssElems \<Rightarrow> ssElems" where
  "reverseElems o' = fold swapStep [0 ..< length o' div 2] o'"

section \<open>What the handlers use from outside the file\<close>

text \<open>
  The handlers call Go's standard library (\<^verbatim>\<open>strconv.ParseFloat\<close>, \<^verbatim>\<open>strconv.Atoi\<close>,
  \<^verbatim>\<open>strings.ToLower\<close>, \<^verbatim>\<open>strings.ToUpper\<close>), helpers and message constants of the package
  that other files define (\<^verbatim>\<open>formatFloat\<close>, \<^verbatim>\<open>redisRange\<close>, \<^verbatim>\<open>msgSyntaxError\<close>, \<^verbatim>\<open>msgInvalidMinMax\<close>,
  \<^verbatim>\<open>msgInvalidInt\<close>, \<^verbatim>\<open>msgInvalidRangeItem\<close>, \<^verbatim>\<open>ErrWrongType\<close>) and the server's address. They
  are parameters of the model: a parser returns \<open>None\<close> where Go returns an error.
  \<open>mapRange\<close> is the order in which \<^verbatim>\<open>for member, score := range elems\<close> visits a Go map,
  which the language leaves open.
\<close>

record env =
  ParseFloat :: "string \<Rightarrow> float64 option"
  Atoi :: "string \<Rightarrow> int option"
  ToLower :: "string \<Rightarrow> string"
  ToUpper :: "string \<Rightarrow> string"
  formatFloat :: "float64 \<Rightarrow> string"
  redisRange :: "int \<Rightarrow> int \<Rightarrow> int \<Rightarrow> bool \<Rightarrow> int \<times> int"
  mapRange :: "(string \<times> float64) list \<Rightarrow> (string \<times> float64) list"
  msgSyntaxError :: string
  msgInvalidMinMax :: string
  msgInvalidInt :: string
  msgInvalidRangeItem :: string
  ErrWrongType :: string
  srvAddrIP :: string
  srvAddrPort :: int

section \<open>Parsing range arguments\<close>

text \<open>\<^verbatim>\<open>parseFloatRange\<close> returns \<open>(f, inclusive, err)\<close>; \<open>None\<close> is a non-nil \<open>err\<close>.\<close>

definition parseFloatRange :: "env \<Rightarrow> string \<Rightarrow> (float64 \<times> bool) option" where
  "parseFloatRange e s =
     (if length s = 0 then Some (Finite 0, False)
      else
        let inclusive = (s ! 0 \<noteq> CHR ''('');
            s' = (if s ! 0 = CHR ''('' then drop 1 s else s)
        in case ParseFloat e s' of
             None \<Rightarrow> None
           | Some f \<Rightarrow> Some (f, inclusive))"

text \<open>\<^verbatim>\<open>parseLexrange\<close>; \<open>None\<close> is \<^verbatim>\<open>errInvalidRangeItem\<close>.\<close>

definition parseLexrange :: "string \<Rightarrow> (string \<times> bool) option" where
  "parseLexrange s =
     (if length s = 0 then None
      else if s = ''+'' \<or> s = ''-'' then Some (s, False)
      else if s ! 0 = CHR ''('' then Some (drop 1 s, False)
      else if s ! 0 = CHR ''['' then Some (drop 1 s, True)
      else None)"

section \<open>The keyspace\<close>

text \<open>
  Modelled from the spec: the Keyspace/Database Accessor and the Ordered-Set Store
  (\<^verbatim>\<open>db.exists\<close>, \<^verbatim>\<open>db.t\<close>, \<^verbatim>\<open>db.zadd\<close>, \<^verbatim>\<open>db.zcard\<close>, \<^verbatim>\<open>db.zrem\<close>, \<^verbatim>\<open>db.zscore\<close>, \<^verbatim>\<open>db.zexists\<close>,
  \<^verbatim>\<open>db.zrank\<close>, \<^verbatim>\<open>db.zmembers\<close>, \<^verbatim>\<open>db.zelements\<close>), which the handlers call and another file
  defines. A keyspace maps a key to a typed value; an ordered set maps a member to its
  score, kept here as an association list with one entry per member.
\<close>

datatype rvalue =
    StringVal string
  | ListVal "string list"
  | SetVal "string list"
  | HashVal "(string \<times> string) list"
  | ZsetVal "(string \<times> float64) list"

type_synonym RedisDB = "string \<rightharpoonup> rvalue"

definition exists :: "RedisDB \<Rightarrow> string \<Rightarrow> bool" where
  "exists d k = (d k \<noteq> None)"

definition t :: "RedisDB \<Rightarrow> string \<Rightarrow> string" where
  "t d k =
     (case d k of
        None \<Rightarrow> []
      | Some (StringVal _) \<Rightarrow> ''string''
      | Some (ListVal _) \<Rightarrow> ''list''
      | Some (SetVal _) \<Rightarrow> ''set''
      | Some (HashVal _) \<Rightarrow> ''hash''
      | Some (ZsetVal _) \<Rightarrow> ''zset'')"

definition sortedSet :: "RedisDB \<Rightarrow> string \<Rightarrow> (string \<times> float64) list" where
  "sortedSet d k = (case d k of Some (ZsetVal ss) \<Rightarrow> ss | _ \<Rightarrow> [])"

text \<open>\<open>add(key, score, member)\<close>: inserts or updates, and tells whether the member is new.\<close>

definition zadd :: "RedisDB \<Rightarrow> string \<Rightarrow> float64 \<Rightarrow> string \<Rightarrow> RedisDB \<times> bool" where
  "zadd d k sc m =
     (let ss = sortedSet d k
      in (d(k \<mapsto> ZsetVal (AList.update m sc ss)), map_of ss m = None))"

text \<open>\<open>remove(key, member)\<close>: when the last member goes, the key goes.\<close>

definition zrem :: "RedisDB \<Rightarrow> string \<Rightarrow> string \<Rightarrow> RedisDB \<times> bool" where
  "zrem d k m =
     (let ss = sortedSet d k
      in if map_of ss m = None then (d, False)
         else
           let ss' = AList.delete m ss
           in (if ss' = [] then d(k := None) else d(k \<mapsto> ZsetVal ss'), True))"

definition zcard :: "RedisDB \<Rightarrow> string \<Rightarrow> int" where
  "zcard d k = int (length (sortedSet d k))"

definition zexists :: "RedisDB \<Rightarrow> string \<Rightarrow> string \<Rightarrow> bool" where
  "zexists d k m = (map_of (sortedSet d k) m \<noteq> None)"

definition zscore :: "RedisDB \<Rightarrow> string \<Rightarrow> string \<Rightarrow> float64" where
  "zscore d k m = (case map_of (sortedSet d k) m of Some sc \<Rightarrow> sc | None \<Rightarrow> Finite 0)"

text \<open>The canonical order: score ascending, then member ascending.\<close>

definition canonLess :: "ssElem \<Rightarrow> ssElem \<Rightarrow> bool" where
  "canonLess a b =
     (if score a = score b then member a < member b else f64_gt (score b) (score a))"

fun canonInsert :: "ssElem \<Rightarrow> ssElems \<Rightarrow> ssElems" where
  "canonInsert x [] = [x]"
| "canonInsert x (y # ys) = (if canonLess y x then y # canonInsert x ys else x # y # ys)"

definition zelements :: "RedisDB \<Rightarrow> string \<Rightarrow> ssElems" where
  "zelements d k =
     foldr canonInsert (map (\<lambda>(m, sc). \<lparr>score = sc, member = m\<rparr>) (sortedSet d k)) []"

definition zmembers :: "RedisDB \<Rightarrow> string \<Rightarrow> string list" where
  "zmembers d k = map member (zelements d k)"

datatype direction = asc | desc

text \<open>\<open>rankOf(key, member, direction)\<close>: the 0-based position, and whether it was found.\<close>

definition zrank :: "RedisDB \<Rightarrow> string \<Rightarrow> string \<Rightarrow> direction \<Rightarrow> int \<times> bool" where
  "zrank d k m dir =
     (let ms = (case dir of asc \<Rightarrow> zmembers d k | desc \<Rightarrow> rev (zmembers d k))
      in case firstIndex (\<lambda>x. x = m) ms of
           None \<Rightarrow> (0, False)
         | Some i \<Rightarrow> (int i, True))"

section \<open>The connection, the replies and the transaction wrapper\<close>

text \<open>One constructor for each reply primitive the handlers call on the responder
  (\<^verbatim>\<open>out.WriteInt\<close>, ...) or on the peer (\<^verbatim>\<open>c.WriteLen\<close>, ...).\<close>

datatype reply =
    WriteErrorString string
  | WriteInt int
  | WriteZero
  | WriteNil
  | WriteBulkLen int
  | WriteString string
  | WriteLen int
  | WriteBulk string
  | WriteError string

record connCtx =
  selectedDB :: nat
  dirty :: bool

text \<open>
  The state a handler works on: the databases of the server, the context of the
  connection and what has been written to it. \<open>entered\<close> records that a closure handed
  to \<^verbatim>\<open>withTx\<close> has been called, and \<open>panicked\<close> that the handler has hit a run-time panic
  (an index or slice bound out of range).
\<close>

record state =
  dbs :: "nat \<Rightarrow> RedisDB"
  ctx :: connCtx
  out :: "reply list"
  entered :: bool
  panicked :: bool

definition emit :: "reply \<Rightarrow> state \<Rightarrow> state" where
  "emit r s = s\<lparr>out := out s @ [r]\<rparr>"

text \<open>Modelled from the spec: \<^verbatim>\<open>setDirty\<close>, which another file defines, marks the connection
  dirty.\<close>

definition setDirty :: "state \<Rightarrow> state" where
  "setDirty s = s\<lparr>ctx := (ctx s)\<lparr>dirty := True\<rparr>\<rparr>"

text \<open>\<^verbatim>\<open>m.db(ctx.selectedDB)\<close>, and storing what a mutating accessor returns.\<close>

definition db :: "state \<Rightarrow> RedisDB" where
  "db s = dbs s (selectedDB (ctx s))"

definition setDb :: "RedisDB \<Rightarrow> state \<Rightarrow> state" where
  "setDb d s = s\<lparr>dbs := (dbs s)(selectedDB (ctx s) := d)\<rparr>"

text \<open>
  Modelled from the spec: the transaction wrapper \<^verbatim>\<open>withTx\<close>, which another file defines.
  It resolves the selected database of the connection and runs the closure on it.
\<close>

definition withTx :: "(state \<Rightarrow> state) \<Rightarrow> state \<Rightarrow> state" where
  "withTx cb s = cb (s\<lparr>entered := True\<rparr>)"

text \<open>How a handler leaves before its closure: with an error reply, after \<^verbatim>\<open>setDirty\<close> or
  without it, or by a panic.\<close>

datatype failure = Reject bool string | Panic

definition fail :: "failure \<Rightarrow> state \<Rightarrow> state" where
  "fail f s =
     (case f of
        Reject d msg \<Rightarrow> emit (WriteErrorString msg) (if d then setDirty s else s)
      | Panic \<Rightarrow> s\<lparr>panicked := True\<rparr>)"

definition msgWrongArgs :: "string \<Rightarrow> string" where
  "msgWrongArgs cmd =
     ''ERR wrong number of arguments for '' @ [CHR 0x27] @ cmd @ [CHR 0x27] @ '' command''"

section \<open>The sorted-set handlers\<close>

text \<open>
  A handler takes the arguments after the command name (\<^verbatim>\<open>r.Args\<close>) and the state. It
  validates the arguments, leaving with an error reply if they are bad, and then hands
  a closure to \<^verbatim>\<open>withTx\<close>.
\<close>

subsection \<open>ZADD\<close>

text \<open>The loop that fills the map \<^verbatim>\<open>elems\<close>; \<^verbatim>\<open>args[1]\<close> on a single remaining argument
  would panic.\<close>

fun zaddElems ::
  "env \<Rightarrow> string list \<Rightarrow> (string \<times> float64) list \<Rightarrow> failure + (string \<times> float64) list" where
  "zaddElems e [] elems = Inr elems"
| "zaddElems e [a] elems =
     (case ParseFloat e a of
        None \<Rightarrow> Inl (Reject True ''ERR value is not a valid float'')
      | Some sc \<Rightarrow> Inl Panic)"
| "zaddElems e (a # b # args) elems =
     (case ParseFloat e a of
        None \<Rightarrow> Inl (Reject True ''ERR value is not a valid float'')
      | Some sc \<Rightarrow> zaddElems e args (AList.update b sc elems))"

text \<open>The loop of the closure: \<^verbatim>\<open>db.zadd\<close> for each entry of the map, counting the new
  members.\<close>

fun zaddAll :: "string \<Rightarrow> (string \<times> float64) list \<Rightarrow> RedisDB \<Rightarrow> int \<Rightarrow> RedisDB \<times> int" where
  "zaddAll key [] d added = (d, added)"
| "zaddAll key ((m, sc) # es) d added =
     (case zadd d key sc m of
        (d', new) \<Rightarrow> zaddAll key es d' (if new then added + 1 else added))"

definition zaddClosure :: "env \<Rightarrow> string \<Rightarrow> (string \<times> float64) list \<Rightarrow> state \<Rightarrow> state" where
  "zaddClosure e key elems s =
     (if exists (db s) key \<and> t (db s) key \<noteq> ''zset'' then
        emit (WriteErrorString (ErrWrongType e)) s
      else
        case zaddAll key (mapRange e elems) (db s) 0 of
          (d', added) \<Rightarrow> emit (WriteInt added) (setDb d' s))"

definition cmdZadd :: "env \<Rightarrow> string list \<Rightarrow> state \<Rightarrow> state" where
  "cmdZadd e Args s =
     (if length Args < 3 then fail (Reject True (msgWrongArgs ''zadd'')) s
      else
        let key = Args ! 0;
            args = drop 1 Args
        in if length args mod 2 \<noteq> 0 then fail (Reject True (msgSyntaxError e)) s
           else
             case zaddElems e args [] of
               Inl f \<Rightarrow> fail f s
             | Inr elems \<Rightarrow> withTx (zaddClosure e key elems) s)"

subsection \<open>ZCARD\<close>

definition zcardClosure :: "env \<Rightarrow> string \<Rightarrow> state \<Rightarrow> state" where
  "zcardClosure e key s =
     (if \<not> exists (db s) key then emit WriteZero s
      else if t (db s) key \<noteq> ''zset'' then emit (WriteErrorString (ErrWrongType e)) s
      else emit (WriteInt (zcard (db s) key)) s)"

definition cmdZcard :: "env \<Rightarrow> string list \<Rightarrow> state \<Rightarrow> state" where
  "cmdZcard e Args s =
     (if length Args \<noteq> 1 then fail (Reject True (msgWrongArgs ''zcard'')) s
      else withTx (zcardClosure e (Args ! 0)) s)"

subsection \<open>ZCOUNT\<close>

definition zcountClosure ::
  "env \<Rightarrow> string \<Rightarrow> float64 \<Rightarrow> bool \<Rightarrow> float64 \<Rightarrow> bool \<Rightarrow> state \<Rightarrow> state" where
  "zcountClosure e key min' minIncl max' maxIncl s =
     (if \<not> exists (db s) key then emit WriteZero s
      else if t (db s) key \<noteq> ''zset'' then emit (WriteErrorString (ErrWrongType e)) s
      else
        let members = zelements (db s) key;
            members = withSSRange members min' minIncl max' maxIncl
        in emit (WriteInt (int (length members))) s)"

definition cmdZcount :: "env \<Rightarrow> string list \<Rightarrow> state \<Rightarrow> state" where
  "cmdZcount e Args s =
     (if length Args \<noteq> 3 then fail (Reject True (msgWrongArgs ''zcount'')) s
      else
        let key = Args ! 0
        in case parseFloatRange e (Args ! 1) of
             None \<Rightarrow> fail (Reject True (msgInvalidMinMax e)) s
           | Some (min', minIncl) \<Rightarrow>
               (case parseFloatRange e (Args ! 2) of
                  None \<Rightarrow> fail (Reject True (msgInvalidMinMax e)) s
                | Some (max', maxIncl) \<Rightarrow>
                    withTx (zcountClosure e key min' minIncl max' maxIncl) s))"

subsection \<open>ZRANGE and ZREVRANGE\<close>

text \<open>The body of the loops that write the elements of a reply.\<close>

definition writeMember :: "env \<Rightarrow> bool \<Rightarrow> RedisDB \<Rightarrow> string \<Rightarrow> string \<Rightarrow> state \<Rightarrow> state" where
  "writeMember e withScores d key el s =
     (let s1 = emit (WriteString el) s
      in if withScores then emit (WriteString (formatFloat e (zscore d key el))) s1 else s1)"

text \<open>\<^verbatim>\<open>members[rs:re]\<close> panics unless \<open>0 \<le> rs \<le> re\<close> and \<open>re\<close> is within the slice; the length
  of the reply has been written by then.\<close>

definition zrangeClosure ::
  "env \<Rightarrow> bool \<Rightarrow> string \<Rightarrow> int \<Rightarrow> int \<Rightarrow> bool \<Rightarrow> state \<Rightarrow> state" where
  "zrangeClosure e reverse key start end' withScores s =
     (if \<not> exists (db s) key then emit (WriteBulkLen 0) s
      else if t (db s) key \<noteq> ''zset'' then emit (WriteErrorString (ErrWrongType e)) s
      else
        let members = zmembers (db s) key;
            members = (if reverse then reverseSlice members else members)
        in case redisRange e (int (length members)) start end' False of
             (rs, re) \<Rightarrow>
               let s1 = (if withScores then emit (WriteBulkLen ((re - rs) * 2)) s
                         else emit (WriteBulkLen (re - rs)) s)
               in if 0 \<le> rs \<and> rs \<le> re \<and> re \<le> int (length members) then
                    fold (writeMember e withScores (db s) key)
                      (take (nat re - nat rs) (drop (nat rs) members)) s1
                  else s1\<lparr>panicked := True\<rparr>)"

definition makeCmdZrange :: "env \<Rightarrow> string \<Rightarrow> bool \<Rightarrow> string list \<Rightarrow> state \<Rightarrow> state" where
  "makeCmdZrange e cmd reverse Args s =
     (if length Args < 3 then fail (Reject True (msgWrongArgs cmd)) s
      else
        let key = Args ! 0
        in case Atoi e (Args ! 1) of
             None \<Rightarrow> fail (Reject True (msgInvalidInt e)) s
           | Some start \<Rightarrow>
               (case Atoi e (Args ! 2) of
                  None \<Rightarrow> fail (Reject True (msgInvalidInt e)) s
                | Some end' \<Rightarrow>
                    if length Args > 4 then fail (Reject False (msgSyntaxError e)) s
                    else if length Args = 4 then
                      (if ToLower e (Args ! 3) \<noteq> ''withscores'' then
                         fail (Reject True (msgSyntaxError e)) s
                       else withTx (zrangeClosure e reverse key start end' True) s)
                    else withTx (zrangeClosure e reverse key start end' False) s))"

subsection \<open>The LIMIT clause\<close>

text \<open>The variables the option loops of ZRANGEBYLEX and ZRANGEBYSCORE set.\<close>

record limitOpts =
  withLimit :: bool
  limitStart :: int
  limitEnd :: int

record rangeOpts = limitOpts +
  withScores :: bool

text \<open>
  The block under \<^verbatim>\<open>// Apply LIMIT ranges\<close>, which \<^verbatim>\<open>cmdZrangebylex\<close> has on member
  strings and \<^verbatim>\<open>makeCmdZrangebyscore\<close> has on elements, the same statements in both.
\<close>

definition applyLimit :: "bool \<Rightarrow> int \<Rightarrow> int \<Rightarrow> 'a list \<Rightarrow> 'a list" where
  "applyLimit wLimit lStart lEnd members =
     (if wLimit then
        (if lStart < 0 then []
         else
           let members1 =
                 (if lStart < int (length members) then drop (nat lStart) members else [])
           in if lEnd \<ge> 0 then
                (if int (length members1) > lEnd then take (nat lEnd) members1 else members1)
              else members1)
      else members)"

subsection \<open>ZRANGEBYLEX\<close>

fun zrangebylexOpts :: "env \<Rightarrow> string list \<Rightarrow> limitOpts \<Rightarrow> failure + limitOpts" where
  "zrangebylexOpts e [] opts = Inr opts"
| "zrangebylexOpts e (a # args) opts =
     (if ToLower e a = ''limit'' then
        (case args of
           x # y # rest \<Rightarrow>
             (case Atoi e x of
                None \<Rightarrow> Inl (Reject True (msgInvalidInt e))
              | Some ls \<Rightarrow>
                  (case Atoi e y of
                     None \<Rightarrow> Inl (Reject True (msgInvalidInt e))
                   | Some le \<Rightarrow>
                       zrangebylexOpts e rest
                         (opts\<lparr>withLimit := True, limitStart := ls, limitEnd := le\<rparr>)))
         | _ \<Rightarrow> Inl (Reject False (msgSyntaxError e)))
      else Inl (Reject True (msgSyntaxError e)))"

definition zrangebylexClosure ::
  "env \<Rightarrow> string \<Rightarrow> string \<Rightarrow> bool \<Rightarrow> string \<Rightarrow> bool \<Rightarrow> limitOpts \<Rightarrow> state \<Rightarrow> state" where
  "zrangebylexClosure e key min' minIncl max' maxIncl opts s =
     (if \<not> exists (db s) key then emit (WriteBulkLen 0) s
      else if t (db s) key \<noteq> ''zset'' then emit (WriteErrorString (ErrWrongType e)) s
      else
        let members = zmembers (db s) key;
            members = sort members;
            members = withLexRange members min' minIncl max' maxIncl;
            members = applyLimit (withLimit opts) (limitStart opts) (limitEnd opts) members
        in fold (\<lambda>el. emit (WriteString el)) members
             (emit (WriteBulkLen (int (length members))) s))"

definition cmdZrangebylex :: "env \<Rightarrow> string list \<Rightarrow> state \<Rightarrow> state" where
  "cmdZrangebylex e Args s =
     (if length Args < 3 then fail (Reject True (msgWrongArgs ''zrangebylex'')) s
      else
        let key = Args ! 0
        in case parseLexrange (Args ! 1) of
             None \<Rightarrow> fail (Reject True (msgInvalidRangeItem e)) s
           | Some (min', minIncl) \<Rightarrow>
               (case parseLexrange (Args ! 2) of
                  None \<Rightarrow> fail (Reject True (msgInvalidRangeItem e)) s
                | Some (max', maxIncl) \<Rightarrow>
                    (case zrangebylexOpts e (drop 3 Args)
                            \<lparr>withLimit = False, limitStart = 0, limitEnd = 0\<rparr> of
                       Inl f \<Rightarrow> fail f s
                     | Inr opts \<Rightarrow>
                         withTx (zrangebylexClosure e key min' minIncl max' maxIncl opts) s)))"

subsection \<open>ZRANGEBYSCORE and ZREVRANGEBYSCORE\<close>

fun zrangebyscoreOpts :: "env \<Rightarrow> string list \<Rightarrow> rangeOpts \<Rightarrow> failure + rangeOpts" where
  "zrangebyscoreOpts e [] opts = Inr opts"
| "zrangebyscoreOpts e (a # args) opts =
     (if ToLower e a = ''limit'' then
        (case args of
           x # y # rest \<Rightarrow>
             (case Atoi e x of
                None \<Rightarrow> Inl (Reject True (msgInvalidInt e))
              | Some ls \<Rightarrow>
                  (case Atoi e y of
                     None \<Rightarrow> Inl (Reject True (msgInvalidInt e))
                   | Some le \<Rightarrow>
                       zrangebyscoreOpts e rest
                         (opts\<lparr>withLimit := True, limitStart := ls, limitEnd := le\<rparr>)))
         | _ \<Rightarrow> Inl (Reject False (msgSyntaxError e)))
      else if ToLower e a = ''withscores'' then
        zrangebyscoreOpts e args (opts\<lparr>withScores := True\<rparr>)
      else Inl (Reject True (msgSyntaxError e)))"

definition writeElem :: "env \<Rightarrow> bool \<Rightarrow> ssElem \<Rightarrow> state \<Rightarrow> state" where
  "writeElem e wScores el s =
     (let s1 = emit (WriteString (member el)) s
      in if wScores then emit (WriteString (formatFloat e (score el))) s1 else s1)"

definition zrangebyscoreClosure ::
  "env \<Rightarrow> bool \<Rightarrow> string \<Rightarrow> float64 \<Rightarrow> bool \<Rightarrow> float64 \<Rightarrow> bool \<Rightarrow> rangeOpts \<Rightarrow> state \<Rightarrow> state" where
  "zrangebyscoreClosure e reverse key min' minIncl max' maxIncl opts s =
     (if \<not> exists (db s) key then emit (WriteBulkLen 0) s
      else if t (db s) key \<noteq> ''zset'' then emit (WriteErrorString (ErrWrongType e)) s
      else
        let members = zelements (db s) key;
            (min1, max1) = (if reverse then (max', min') else (min', max'));
            (minIncl1, maxIncl1) = (if reverse then (maxIncl, minIncl) else (minIncl, maxIncl));
            members = withSSRange members min1 minIncl1 max1 maxIncl1;
            members = (if reverse then reverseElems members else members);
            members = applyLimit (withLimit opts) (limitStart opts) (limitEnd opts) members;
            s1 = (if withScores opts then emit (WriteBulkLen (int (length members) * 2)) s
                  else emit (WriteBulkLen (int (length members))) s)
        in fold (writeElem e (withScores opts)) members s1)"

definition makeCmdZrangebyscore :: "env \<Rightarrow> string \<Rightarrow> bool \<Rightarrow> string list \<Rightarrow> state \<Rightarrow> state" where
  "makeCmdZrangebyscore e cmd reverse Args s =
     (if length Args < 3 then fail (Reject True (msgWrongArgs cmd)) s
      else
        let key = Args ! 0
        in case parseFloatRange e (Args ! 1) of
             None \<Rightarrow> fail (Reject True (msgInvalidMinMax e)) s
           | Some (min', minIncl) \<Rightarrow>
               (case parseFloatRange e (Args ! 2) of
                  None \<Rightarrow> fail (Reject True (msgInvalidMinMax e)) s
                | Some (max', maxIncl) \<Rightarrow>
                    (case zrangebyscoreOpts e (drop 3 Args)
                            \<lparr>withLimit = False, limitStart = 0, limitEnd = 0,
                             withScores = False\<rparr> of
                       Inl f \<Rightarrow> fail f s
                     | Inr opts \<Rightarrow>
                         withTx (zrangebyscoreClosure e reverse key min' minIncl max' maxIncl
                                   opts) s)))"

subsection \<open>ZRANK and ZREVRANK\<close>

definition zrankClosure :: "env \<Rightarrow> bool \<Rightarrow> string \<Rightarrow> string \<Rightarrow> state \<Rightarrow> state" where
  "zrankClosure e reverse key mem s =
     (if \<not> exists (db s) key then emit WriteNil s
      else if t (db s) key \<noteq> ''zset'' then emit (WriteErrorString (ErrWrongType e)) s
      else
        let dir = (if reverse then desc else asc)
        in case zrank (db s) key mem dir of
             (rank, ok) \<Rightarrow> if \<not> ok then emit WriteNil s else emit (WriteInt rank) s)"

definition makeCmdZrank :: "env \<Rightarrow> string \<Rightarrow> bool \<Rightarrow> string list \<Rightarrow> state \<Rightarrow> state" where
  "makeCmdZrank e cmd reverse Args s =
     (if length Args \<noteq> 2 then fail (Reject True (msgWrongArgs cmd)) s
      else withTx (zrankClosure e reverse (Args ! 0) (Args ! 1)) s)"

subsection \<open>ZREM\<close>

fun zremAll :: "string \<Rightarrow> string list \<Rightarrow> RedisDB \<Rightarrow> int \<Rightarrow> RedisDB \<times> int" where
  "zremAll key [] d deleted = (d, deleted)"
| "zremAll key (m # ms) d deleted =
     (case zrem d key m of
        (d', existed) \<Rightarrow> zremAll key ms d' (if existed then deleted + 1 else deleted))"

definition zremClosure :: "env \<Rightarrow> string \<Rightarrow> string list \<Rightarrow> state \<Rightarrow> state" where
  "zremClosure e key members s =
     (if \<not> exists (db s) key then emit WriteZero s
      else if t (db s) key \<noteq> ''zset'' then emit (WriteErrorString (ErrWrongType e)) s
      else
        case zremAll key members (db s) 0 of
          (d', deleted) \<Rightarrow> emit (WriteInt deleted) (setDb d' s))"

definition cmdZrem :: "env \<Rightarrow> string list \<Rightarrow> state \<Rightarrow> state" where
  "cmdZrem e Args s =
     (if length Args < 2 then fail (Reject True (msgWrongArgs ''zrem'')) s
      else withTx (zremClosure e (Args ! 0) (drop 1 Args)) s)"

subsection \<open>ZSCORE\<close>

definition zscoreClosure :: "env \<Rightarrow> string \<Rightarrow> string \<Rightarrow> state \<Rightarrow> state" where
  "zscoreClosure e key mem s =
     (if \<not> exists (db s) key then emit WriteNil s
      else if t (db s) key \<noteq> ''zset'' then emit (WriteErrorString (ErrWrongType e)) s
      else if \<not> zexists (db s) key mem then emit WriteNil s
      else emit (WriteString (formatFloat e (zscore (db s) key mem))) s)"

definition cmdZscore :: "env \<Rightarrow> string list \<Rightarrow> state \<Rightarrow> state" where
  "cmdZscore e Args s =
     (if length Args \<noteq> 2 then fail (Reject True (msgWrongArgs ''zscore'')) s
      else withTx (zscoreClosure e (Args ! 0) (Args ! 1)) s)"

subsection \<open>Registration\<close>

text \<open>\<^verbatim>\<open>commandsSortedSet\<close>: the handlers by command name, in the order they are registered.\<close>

definition commandsSortedSet :: "env \<Rightarrow> (string \<times> (string list \<Rightarrow> state \<Rightarrow> state)) list" where
  "commandsSortedSet e =
     [(''ZADD'', cmdZadd e),
      (''ZCARD'', cmdZcard e),
      (''ZCOUNT'', cmdZcount e),
      (''ZRANGE'', makeCmdZrange e ''zrange'' False),
      (''ZRANGEBYLEX'', cmdZrangebylex e),
      (''ZRANGEBYSCORE'', makeCmdZrangebyscore e ''zrangebyscore'' False),
      (''ZRANK'', makeCmdZrank e ''zrank'' False),
      (''ZREM'', cmdZrem e),
      (''ZREVRANGE'', makeCmdZrange e ''zrevrange'' True),
      (''ZREVRANGEBYSCORE'', makeCmdZrangebyscore e ''zrevrangebyscore'' True),
      (''ZREVRANK'', makeCmdZrank e ''zrevrank'' True),
      (''ZSCORE'', cmdZscore e)]"

section \<open>The cluster stubs\<close>

definition cmdClusterSlots :: "env \<Rightarrow> string \<Rightarrow> string list \<Rightarrow> state \<Rightarrow> state" where
  "cmdClusterSlots e cmd args s =
     withTx (\<lambda>s.
        emit (WriteBulk ''09dbe9720cda62f7865eabc5fd8857c5d2678366'')
       (emit (WriteInt (srvAddrPort e))
       (emit (WriteBulk (srvAddrIP e))
       (emit (WriteLen 3)
       (emit (WriteInt 16383)
       (emit (WriteInt 0)
       (emit (WriteLen 3)
       (emit (WriteLen 1) s)))))))) s"

definition cmdClusterKeySlot :: "env \<Rightarrow> string \<Rightarrow> string list \<Rightarrow> state \<Rightarrow> state" where
  "cmdClusterKeySlot e cmd args s = withTx (\<lambda>s. emit (WriteInt 163) s) s"

definition cmdClusterNodes :: "env \<Rightarrow> string \<Rightarrow> string list \<Rightarrow> state \<Rightarrow> state" where
  "cmdClusterNodes e cmd args s =
     withTx (\<lambda>s. emit (WriteBulk
       ''e7d1eecce10fd6bb5eb35b9f99a514335d9ba9ca 127.0.0.1:7000@7000 myself,master - 0 0 1 connected 0-16383'') s) s"

text \<open>\<^verbatim>\<open>strings.Join\<close>.\<close>

fun Join :: "string list \<Rightarrow> string \<Rightarrow> string" where
  "Join [] sep = []"
| "Join [a] sep = a"
| "Join (a # b # rest) sep = a @ sep @ Join (b # rest) sep"

definition cmdCluster :: "env \<Rightarrow> string \<Rightarrow> string list \<Rightarrow> state \<Rightarrow> state" where
  "cmdCluster e cmd args s =
     (if length args = 1 \<and> ToUpper e (args ! 0) = ''SLOTS'' then cmdClusterSlots e cmd args s
      else if length args = 2 \<and> ToUpper e (args ! 0) = ''KEYSLOT'' then
        cmdClusterKeySlot e cmd args s
      else if length args = 1 \<and> ToUpper e (args ! 0) = ''NODES'' then
        cmdClusterNodes e cmd args s
      else
        let j = Join args '' '';
            err = ''ERR '' @ [CHR 0x27] @ ''CLUSTER '' @ j @ [CHR 0x27] @ '' not supported''
        in emit (WriteError err) (setDirty s))"

section \<open>A concrete environment\<close>

text \<open>
  An environment to run the handlers in: the parsers accept the plain decimal integers
  (an optional sign and digits, which both \<^verbatim>\<open>strconv.Atoi\<close> and \<^verbatim>\<open>strconv.ParseFloat\<close>
  accept, within the range each represents exactly), the case mappings are those of
  ASCII letters, a map is visited in the order its keys were first stored, and the
  messages are the ones the package uses.
\<close>

definition digitVal :: "char \<Rightarrow> nat option" where
  "digitVal c =
     (if CHR ''0'' \<le> c \<and> c \<le> CHR ''9'' then Some (of_char c - of_char CHR ''0'') else None)"

fun parseDigits :: "string \<Rightarrow> nat \<Rightarrow> nat option" where
  "parseDigits [] acc = Some acc"
| "parseDigits (c # cs) acc =
     (case digitVal c of None \<Rightarrow> None | Some d \<Rightarrow> parseDigits cs (10 * acc + d))"

definition decimalInt :: "string \<Rightarrow> int option" where
  "decimalInt s =
     (case s of
        [] \<Rightarrow> None
      | c # cs \<Rightarrow>
          if c = CHR ''-'' then
            (if cs = [] then None else map_option (\<lambda>n. - int n) (parseDigits cs 0))
          else if c = CHR ''+'' then
            (if cs = [] then None else map_option int (parseDigits cs 0))
          else map_option int (parseDigits s 0))"

definition testAtoi :: "string \<Rightarrow> int option" where
  "testAtoi s =
     (case decimalInt s of
        None \<Rightarrow> None
      | Some i \<Rightarrow> if - (2 ^ 63) \<le> i \<and> i < 2 ^ 63 then Some i else None)"

definition testParseFloat :: "string \<Rightarrow> float64 option" where
  "testParseFloat s =
     (case decimalInt s of
        None \<Rightarrow> None
      | Some i \<Rightarrow> if - (2 ^ 53) \<le> i \<and> i \<le> 2 ^ 53 then Some (Finite (of_int i)) else None)"

definition asciiLower :: "char \<Rightarrow> char" where
  "asciiLower c =
     (if CHR ''A'' \<le> c \<and> c \<le> CHR ''Z'' then char_of (of_char c + (32::nat)) else c)"

definition asciiUpper :: "char \<Rightarrow> char" where
  "asciiUpper c =
     (if CHR ''a'' \<le> c \<and> c \<le> CHR ''z'' then char_of (of_char c - (32::nat)) else c)"

text \<open>Scores print as their integer part here; the handlers only pass the text on.\<close>

fun showNat :: "nat \<Rightarrow> nat \<Rightarrow> string" where
  "showNat 0 n = []"
| "showNat (Suc fuel) n =
     (if n < 10 then [char_of (n + 48)]
      else showNat fuel (n div 10) @ [char_of (n mod 10 + 48)])"

definition showInt :: "int \<Rightarrow> string" where
  "showInt i = (if i < 0 then ''-'' @ showNat 20 (nat (- i)) else showNat 20 (nat i))"

fun testFormatFloat :: "float64 \<Rightarrow> string" where
  "testFormatFloat NaN = ''NaN''"
| "testFormatFloat NegInf = ''-Inf''"
| "testFormatFloat PosInf = ''+Inf''"
| "testFormatFloat (Finite x) = showInt \<lfloor>x\<rfloor>"

text \<open>
  Modelled from the spec: the shared index normalisation \<^verbatim>\<open>redisRange\<close>, which another file
  defines. Negative indices count from the end, the end index is inclusive, both are
  clamped into the length, and a start beyond the end gives the empty window.
\<close>

definition specRedisRange :: "int \<Rightarrow> int \<Rightarrow> int \<Rightarrow> bool \<Rightarrow> int \<times> int" where
  "specRedisRange l start end' stringSemantics =
     (let start1 = (if start < 0 then (if l + start < 0 then 0 else l + start) else start);
          start2 = (if start1 > l then l else start1);
          end1 = (if end' < 0 then
                    (if l + end' < 0 then (if stringSemantics then 0 else - 1) else l + end')
                  else end');
          end2 = end1 + 1;
          end3 = (if end2 > l then l else end2)
      in if end3 < start2 then (0, 0) else (start2, end3))"

definition testEnv :: env where
  "testEnv =
     \<lparr>ParseFloat = testParseFloat,
      Atoi = testAtoi,
      ToLower = map asciiLower,
      ToUpper = map asciiUpper,
      formatFloat = testFormatFloat,
      redisRange = specRedisRange,
      mapRange = (\<lambda>elems. elems),
      msgSyntaxError = ''ERR syntax error'',
      msgInvalidMinMax = ''ERR min or max is not a float'',
      msgInvalidInt = ''ERR value is not an integer or out of range'',
      msgInvalidRangeItem = ''ERR min or max not valid string range item'',
      ErrWrongType = ''WRONGTYPE Operation against a key holding the wrong kind of value'',
      srvAddrIP = ''127.0.0.1'',
      srvAddrPort = 6379\<rparr>"

text \<open>A fresh connection on database 0 of a server that holds the given keyspace there.\<close>

definition initState :: "RedisDB \<Rightarrow> state" where
  "initState d =
     \<lparr>dbs = (\<lambda>i. if i = 0 then d else Map.empty),
      ctx = \<lparr>selectedDB = 0, dirty = False\<rparr>,
      out = [],
      entered = False,
      panicked = False\<rparr>"

text \<open>The set of the spec's scenarios: the key \<open>z\<close> holds \<open>a\<close>, \<open>b\<close>, \<open>c\<close> with the scores 1, 2, 3,
  and the key \<open>s\<close> holds a plain string.\<close>

definition abcDB :: RedisDB where
  "abcDB =
     [''z'' \<mapsto> ZsetVal [(''a'', Finite 1), (''b'', Finite 2), (''c'', Finite 3)],
      ''s'' \<mapsto> StringVal ''v'']"

section \<open>Replies as the claims describe them\<close>


definition elemReply :: "env \<Rightarrow> bool \<Rightarrow> ssElem \<Rightarrow> reply list" where
  "elemReply e wScores el =
     (if wScores then [WriteString (member el), WriteString (formatFloat e (score el))]
      else [WriteString (member el)])"

definition elemsReply :: "env \<Rightarrow> bool \<Rightarrow> ssElems \<Rightarrow> reply list" where
  "elemsReply e wScores els =
     WriteBulkLen (if wScores then int (length els) * 2 else int (length els))
       # concat (map (elemReply e wScores) els)"

text \<open>The reply of the spec's table for a command on a key that does not exist: the
  integer 0, nil, or the empty array.\<close>

definition emptyReply :: "string \<Rightarrow> reply" where
  "emptyReply name =
     (if name \<in> set [''ZCARD'', ''ZCOUNT'', ''ZREM''] then WriteZero
      else if name \<in> set [''ZSCORE'', ''ZRANK'', ''ZREVRANK''] then WriteNil
      else WriteBulkLen 0)"


text \<open>An array of members looked up by rank, with or without their scores.\<close>

definition memberReply :: "env \<Rightarrow> bool \<Rightarrow> RedisDB \<Rightarrow> string \<Rightarrow> string \<Rightarrow> reply list" where
  "memberReply e wScores d key el =
     (if wScores then [WriteString el, WriteString (formatFloat e (zscore d key el))]
      else [WriteString el])"

definition rankReply :: "env \<Rightarrow> bool \<Rightarrow> RedisDB \<Rightarrow> string \<Rightarrow> string list \<Rightarrow> reply list" where
  "rankReply e wScores d key ms =
     WriteBulkLen (if wScores then int (length ms) * 2 else int (length ms))
       # concat (map (memberReply e wScores d key) ms)"

text \<open>A set with a negative and a positive score.\<close>

definition signsDB :: RedisDB where
  "signsDB = [''z'' \<mapsto> ZsetVal [(''a'', Finite (- 1)), (''b'', Finite 1)]]"

text \<open>The score and member arguments of a ZADD call, in pairs, and the last score the call
  gives for a member, in argument order.\<close>

fun argPairs :: "string list \<Rightarrow> (string \<times> string) list" where
  "argPairs (a # b # rest) = (a, b) # argPairs rest"
| "argPairs rest = []"

definition lastScore :: "env \<Rightarrow> string list \<Rightarrow> string \<Rightarrow> float64 option" where
  "lastScore e args m =
     (case filter (\<lambda>(a, b). b = m) (argPairs args) of
        [] \<Rightarrow> None
      | ps \<Rightarrow> ParseFloat e (fst (last ps)))"

text \<open>
  The arguments of a well-formed command, after the spec's error kinds: the right number
  of positional arguments, score, range and index tokens that parse, and trailing options
  that are recognised and complete (\<^verbatim>\<open>LIMIT offset count\<close> for ZRANGEBYLEX, that and
  \<^verbatim>\<open>WITHSCORES\<close> for ZRANGEBYSCORE and ZREVRANGEBYSCORE, one \<^verbatim>\<open>WITHSCORES\<close> for ZRANGE and
  ZREVRANGE).
\<close>

fun limitOptsOk :: "env \<Rightarrow> string list \<Rightarrow> bool" where
  "limitOptsOk e [] = True"
| "limitOptsOk e (a # x # y # rest) =
     (ToLower e a = ''limit'' \<and> Atoi e x \<noteq> None \<and> Atoi e y \<noteq> None \<and> limitOptsOk e rest)"
| "limitOptsOk e rest = False"

fun rangeOptsOk :: "env \<Rightarrow> string list \<Rightarrow> bool" where
  "rangeOptsOk e [] = True"
| "rangeOptsOk e (a # rest) =
     (if ToLower e a = ''limit'' then
        (case rest of
           x # y # rest' \<Rightarrow> Atoi e x \<noteq> None \<and> Atoi e y \<noteq> None \<and> rangeOptsOk e rest'
         | _ \<Rightarrow> False)
      else ToLower e a = ''withscores'' \<and> rangeOptsOk e rest)"

definition wellFormed :: "env \<Rightarrow> string \<Rightarrow> string list \<Rightarrow> bool" where
  "wellFormed e name Args =
     (if name = ''ZADD'' then
        length Args \<ge> 3 \<and> odd (length Args)
        \<and> (\<forall>p \<in> set (argPairs (drop 1 Args)). ParseFloat e (fst p) \<noteq> None)
      else if name = ''ZCARD'' then length Args = 1
      else if name = ''ZCOUNT'' then
        length Args = 3 \<and> parseFloatRange e (Args ! 1) \<noteq> None
        \<and> parseFloatRange e (Args ! 2) \<noteq> None
      else if name = ''ZRANGE'' \<or> name = ''ZREVRANGE'' then
        (length Args = 3 \<or> length Args = 4 \<and> ToLower e (Args ! 3) = ''withscores'')
        \<and> Atoi e (Args ! 1) \<noteq> None \<and> Atoi e (Args ! 2) \<noteq> None
      else if name = ''ZRANGEBYLEX'' then
        length Args \<ge> 3 \<and> parseLexrange (Args ! 1) \<noteq> None \<and> parseLexrange (Args ! 2) \<noteq> None
        \<and> limitOptsOk e (drop 3 Args)
      else if name = ''ZRANGEBYSCORE'' \<or> name = ''ZREVRANGEBYSCORE'' then
        length Args \<ge> 3 \<and> parseFloatRange e (Args ! 1) \<noteq> None
        \<and> parseFloatRange e (Args ! 2) \<noteq> None \<and> rangeOptsOk e (drop 3 Args)
      else if name = ''ZRANK'' \<or> name = ''ZREVRANK'' \<or> name = ''ZSCORE'' then length Args = 2
      else if name = ''ZREM'' then length Args \<ge> 2
      else False)"

section \<open>Reversal in place\<close>

lemma length_swapStep: "length (swapStep i ys) = length ys"
  by (simp add: swapStep_def Let_def)

lemma length_fold_swapStep: "length (fold swapStep is ys) = length ys"
  by (induction "is" arbitrary: ys) (simp_all add: length_swapStep)

text \<open>After \<open>k\<close> rounds the outer \<open>k\<close> positions on each side hold the mirrored elements
  and the middle is as it was.\<close>

lemma fold_swapStep_nth:
  "k \<le> length xs div 2 \<Longrightarrow> j < length xs \<Longrightarrow>
   fold swapStep [0 ..< k] xs ! j =
     (if j < k \<or> j \<ge> length xs - k then xs ! (length xs - 1 - j) else xs ! j)"
proof (induction k arbitrary: j)
  case 0
  then show ?case by simp
next
  case (Suc k)
  let ?ys = "fold swapStep [0 ..< k] xs"
  let ?n = "length xs"
  have len: "length ?ys = ?n" by (simp add: length_fold_swapStep)
  have k: "k < ?n div 2" using Suc.prems by simp
  have kn: "k < ?n" "?n - 1 - k < ?n" "k < ?n - 1 - k" using k by auto
  have yk: "?ys ! k = xs ! k" using Suc.IH[of k] k kn by auto
  have yo: "?ys ! (?n - 1 - k) = xs ! (?n - 1 - k)" using Suc.IH[of "?n - 1 - k"] k kn by auto
  have yj: "?ys ! j = (if j < k \<or> j \<ge> ?n - k then xs ! (?n - 1 - j) else xs ! j)"
    using Suc.IH[of j] Suc.prems by simp
  have "fold swapStep [0 ..< Suc k] xs = swapStep k ?ys" by simp
  also have "\<dots> = ?ys[k := ?ys ! (?n - 1 - k), ?n - 1 - k := ?ys ! k]"
    by (simp add: swapStep_def Let_def len)
  finally have eq: "fold swapStep [0 ..< Suc k] xs = ?ys[k := xs ! (?n - 1 - k), ?n - 1 - k := xs ! k]"
    using yk yo by simp
  show ?case
    unfolding eq using Suc.prems(2) kn yj len
    by (auto simp: nth_list_update)
qed

lemma fold_swapStep_rev: "fold swapStep [0 ..< length xs div 2] xs = rev xs"
proof (rule nth_equalityI)
  show "length (fold swapStep [0 ..< length xs div 2] xs) = length (rev xs)"
    by (simp add: length_fold_swapStep)
next
  fix j assume "j < length (fold swapStep [0 ..< length xs div 2] xs)"
  then have j: "j < length xs" by (simp add: length_fold_swapStep)
  have "fold swapStep [0 ..< length xs div 2] xs ! j = xs ! (length xs - 1 - j)"
  proof (cases "j < length xs div 2 \<or> j \<ge> length xs - length xs div 2")
    case True
    then show ?thesis using fold_swapStep_nth[of "length xs div 2" xs j] j by simp
  next
    case False
    then have "length xs - 1 - j = j" using j by auto
    then show ?thesis using fold_swapStep_nth[of "length xs div 2" xs j] j False by simp
  qed
  then show "fold swapStep [0 ..< length xs div 2] xs ! j = rev xs ! j"
    using j by (simp add: rev_nth)
qed

lemma reverseElems_rev: "reverseElems xs = rev xs"
  by (simp add: reverseElems_def fold_swapStep_rev)

lemma reverseSlice_rev: "reverseSlice xs = rev xs"
  by (simp add: reverseSlice_def fold_swapStep_rev)

section \<open>The range loops\<close>

lemma firstIndex_None: "firstIndex P xs = None \<longleftrightarrow> (\<forall>x \<in> set xs. \<not> P x)"
  by (induction xs) auto

lemma firstIndex_Some_take:
  "firstIndex P xs = Some i \<Longrightarrow> take i xs = takeWhile (\<lambda>x. \<not> P x) xs"
  by (induction xs arbitrary: i) (auto split: if_splits)

lemma firstIndex_Some_drop:
  "firstIndex P xs = Some i \<Longrightarrow> drop i xs = dropWhile (\<lambda>x. \<not> P x) xs"
  by (induction xs arbitrary: i) (auto split: if_splits)

text \<open>The upper loops keep the longest prefix that does not violate the bound.\<close>

lemma sliceToFirst_takeWhile: "sliceToFirst P xs = takeWhile (\<lambda>x. \<not> P x) xs"
proof (cases "firstIndex P xs")
  case None
  moreover from None have "\<forall>x \<in> set xs. \<not> P x" by (simp only: firstIndex_None)
  ultimately show ?thesis by (simp add: sliceToFirst_def takeWhile_eq_all_conv[THEN iffD2])
next
  case (Some i)
  then show ?thesis by (simp add: sliceToFirst_def firstIndex_Some_take)
qed

text \<open>The lower loops drop the elements before the first one that satisfies the bound,
  and drop nothing when no element satisfies it.\<close>

lemma sliceFromFirst_dropWhile:
  "sliceFromFirst P xs = (if \<exists>x \<in> set xs. P x then dropWhile (\<lambda>x. \<not> P x) xs else xs)"
proof (cases "firstIndex P xs")
  case None
  moreover from None have "\<forall>x \<in> set xs. \<not> P x" by (simp only: firstIndex_None)
  ultimately show ?thesis by (simp add: sliceFromFirst_def)
next
  case (Some i)
  then have "\<exists>x \<in> set xs. P x" using firstIndex_None[of P xs] by auto
  then show ?thesis using Some by (simp add: sliceFromFirst_def firstIndex_Some_drop)
qed

lemma withSSRange_loops:
  "withSSRange members min' minIncl max' maxIncl =
     (let low = (\<lambda>m. if minIncl then f64_ge (score m) min' else f64_gt (score m) min');
          above = (\<lambda>m. if maxIncl then f64_gt (score m) max' else f64_ge (score m) max')
      in takeWhile (\<lambda>m. \<not> above m)
           (if \<exists>m \<in> set members. low m then dropWhile (\<lambda>m. \<not> low m) members
            else members))"
  by (simp add: withSSRange_def Let_def sliceToFirst_takeWhile sliceFromFirst_dropWhile)

section \<open>Score ranges\<close>

text \<open>
  Claim C1: for a snapshot sorted by score, \<^verbatim>\<open>withSSRange\<close> returns exactly the elements
  whose score is inside the range. The code does not: when no element satisfies the
  minimum bound, the first loop ends without slicing and every element stays. On the
  one-element snapshot with score 1 and the range from 5 to 10, both inclusive, the element
  is returned although 1 is below 5; through the command, \<^verbatim>\<open>ZRANGEBYSCORE z 5 10\<close> on the
  set with the scores 1, 2, 3 returns all three members.
\<close>

theorem withSSRange_unmatched_min:
  "withSSRange [\<lparr>score = Finite 1, member = ''a''\<rparr>] (Finite 5) True (Finite 10) True
     = [\<lparr>score = Finite 1, member = ''a''\<rparr>]
   \<and> \<not> f64_ge (Finite 1) (Finite 5)
   \<and> out (makeCmdZrangebyscore testEnv ''zrangebyscore'' False [''z'', ''5'', ''10'']
            (initState abcDB))
     = [WriteBulkLen 3, WriteString ''a'', WriteString ''b'', WriteString ''c'']"
  by code_simp

section \<open>Lexicographic ranges\<close>

text \<open>The sentinels behave as the claim says.\<close>

lemma withLexRange_sentinels:
  "max' = ''-'' \<or> min' = ''+'' \<Longrightarrow> withLexRange members min' minIncl max' maxIncl = []"
  by (simp add: withLexRange_def)

lemma withLexRange_unbounded:
  "withLexRange members ''-'' minIncl ''+'' maxIncl = members"
  by (simp add: withLexRange_def)

text \<open>
  Claim C5: \<^verbatim>\<open>withLexRange\<close> is empty for the impossible sentinels and otherwise keeps
  exactly the members that satisfy the concrete bounds. The code does not: when no member
  satisfies a concrete minimum, the first loop ends without slicing and every member
  stays. On the list with the one member \<open>a\<close>, the inclusive minimum \<open>b\<close> and the maximum
  \<open>+\<close>, the member is returned although \<open>a\<close> is below \<open>b\<close>; through the command,
  \<^verbatim>\<open>ZRANGEBYLEX z [x +\<close> on the members \<open>a\<close>, \<open>b\<close>, \<open>c\<close> returns all three.
\<close>

theorem withLexRange_unmatched_min:
  "withLexRange [''a''] ''b'' True ''+'' False = [''a'']
   \<and> \<not> ''a'' \<ge> ''b''
   \<and> out (cmdZrangebylex testEnv [''z'', ''[x'', ''+''] (initState abcDB))
     = [WriteBulkLen 3, WriteString ''a'', WriteString ''b'', WriteString ''c'']"
  by code_simp

section \<open>Malformed commands\<close>

text \<open>
  Claim C2: every malformed command sets the dirty flag, writes an error and does not
  enter its closure. Three exits of the code write the syntax error and return without
  \<^verbatim>\<open>setDirty\<close>: more than four arguments to ZRANGE or ZREVRANGE, and a LIMIT with fewer
  than two arguments after it in ZRANGEBYLEX and in ZRANGEBYSCORE or ZREVRANGEBYSCORE.
  The error is written and the closure is not entered, but the flag stays clear. The
  unrecognised option beside them does set it.
\<close>

theorem syntax_error_without_dirty:
  "(let s = makeCmdZrange testEnv ''zrange'' False
              [''z'', ''0'', ''-1'', ''withscores'', ''extra''] (initState abcDB)
    in out s = [WriteErrorString ''ERR syntax error''] \<and> \<not> entered s \<and> \<not> dirty (ctx s))
   \<and> (let s = cmdZrangebylex testEnv [''z'', ''-'', ''+'', ''limit'', ''1''] (initState abcDB)
      in out s = [WriteErrorString ''ERR syntax error''] \<and> \<not> entered s \<and> \<not> dirty (ctx s))
   \<and> (let s = makeCmdZrangebyscore testEnv ''zrangebyscore'' False
                [''z'', ''1'', ''2'', ''limit'', ''1''] (initState abcDB)
      in out s = [WriteErrorString ''ERR syntax error''] \<and> \<not> entered s \<and> \<not> dirty (ctx s))
   \<and> (let s = makeCmdZrange testEnv ''zrange'' False [''z'', ''0'', ''-1'', ''bogus'']
                (initState abcDB)
      in out s = [WriteErrorString ''ERR syntax error''] \<and> \<not> entered s \<and> dirty (ctx s))"
  by code_simp

section \<open>Handlers and their closures\<close>

lemma entered_fail [simp]: "entered (fail f s) = entered s"
  by (cases f) (simp_all add: fail_def emit_def setDirty_def)

lemma db_entered [simp]: "db (s\<lparr>entered := b\<rparr>) = db s"
  by (simp add: db_def)

text \<open>The parse loops succeed on exactly the well-formed arguments.\<close>

lemma zaddElems_total:
  "even (length args) \<Longrightarrow> \<forall>p \<in> set (argPairs args). ParseFloat e (fst p) \<noteq> None \<Longrightarrow>
   \<exists>elems. zaddElems e args acc = Inr elems"
  by (induction e args acc rule: zaddElems.induct) auto

lemma zaddElems_Inr_iff:
  "(\<exists>elems. zaddElems e args acc = Inr elems)
   \<longleftrightarrow> even (length args) \<and> (\<forall>p \<in> set (argPairs args). ParseFloat e (fst p) \<noteq> None)"
  by (induction e args acc rule: zaddElems.induct) (auto split: option.splits)

lemma zrangebylexOpts_Inr_iff:
  "(\<exists>opts'. zrangebylexOpts e args opts = Inr opts') \<longleftrightarrow> limitOptsOk e args"
proof (induction e args arbitrary: opts rule: limitOptsOk.induct)
  case (1 e)
  then show ?case by simp
next
  case (2 e a x y rest)
  then show ?case by (auto split: option.splits)
qed simp_all

lemma zrangebyscoreOpts_Inr_iff:
  "(\<exists>opts'. zrangebyscoreOpts e args opts = Inr opts') \<longleftrightarrow> rangeOptsOk e args"
proof (induction e args arbitrary: opts rule: rangeOptsOk.induct)
  case (1 e)
  then show ?case by simp
next
  case (2 e a rest)
  then show ?case by (auto split: option.splits list.splits)
qed


text \<open>A well-formed command runs its closure on the state it was given.\<close>

lemma cmdZadd_wf:
  assumes "wellFormed e ''ZADD'' Args"
  shows "\<exists>elems. cmdZadd e Args s = zaddClosure e (Args ! 0) elems (s\<lparr>entered := True\<rparr>)"
proof -
  from assms have len: "length Args \<ge> 3" and ev: "even (length (drop 1 Args))"
    and ps: "\<forall>p \<in> set (argPairs (drop 1 Args)). ParseFloat e (fst p) \<noteq> None"
    by (auto simp: wellFormed_def)
  from zaddElems_total[OF ev ps] obtain elems where "zaddElems e (drop 1 Args) [] = Inr elems"
    by blast
  then show ?thesis using len ev
    by (auto simp: cmdZadd_def Let_def withTx_def even_iff_mod_2_eq_zero)
qed

lemma cmdZcard_wf:
  assumes "wellFormed e ''ZCARD'' Args"
  shows "cmdZcard e Args s = zcardClosure e (Args ! 0) (s\<lparr>entered := True\<rparr>)"
  using assms by (simp add: wellFormed_def cmdZcard_def withTx_def)

lemma cmdZcount_wf:
  assumes "wellFormed e ''ZCOUNT'' Args"
  shows "\<exists>a aI b bI. cmdZcount e Args s
           = zcountClosure e (Args ! 0) a aI b bI (s\<lparr>entered := True\<rparr>)"
  using assms by (auto simp: wellFormed_def cmdZcount_def withTx_def; blast)

lemma makeCmdZrange_wf:
  assumes "wellFormed e ''ZRANGE'' Args \<or> wellFormed e ''ZREVRANGE'' Args"
  shows "\<exists>start end' ws. makeCmdZrange e cmd reverse Args s =
       zrangeClosure e reverse (Args ! 0) start end' ws (s\<lparr>entered := True\<rparr>)"
  using assms by (auto simp: wellFormed_def makeCmdZrange_def withTx_def; blast)

lemma cmdZrangebylex_wf:
  assumes "wellFormed e ''ZRANGEBYLEX'' Args"
  shows "\<exists>a aI b bI opts. cmdZrangebylex e Args s =
       zrangebylexClosure e (Args ! 0) a aI b bI opts (s\<lparr>entered := True\<rparr>)"
proof -
  from assms have len: "length Args \<ge> 3" and a: "parseLexrange (Args ! 1) \<noteq> None"
    and b: "parseLexrange (Args ! 2) \<noteq> None" and o: "limitOptsOk e (drop 3 Args)"
    by (auto simp: wellFormed_def)
  from o obtain opts where "zrangebylexOpts e (drop 3 Args)
      \<lparr>withLimit = False, limitStart = 0, limitEnd = 0\<rparr> = Inr opts"
    using zrangebylexOpts_Inr_iff by blast
  then show ?thesis using len a b
    by (auto simp: cmdZrangebylex_def withTx_def; blast)
qed

lemma makeCmdZrangebyscore_wf:
  assumes "wellFormed e ''ZRANGEBYSCORE'' Args \<or> wellFormed e ''ZREVRANGEBYSCORE'' Args"
  shows "\<exists>a aI b bI opts. makeCmdZrangebyscore e cmd reverse Args s =
       zrangebyscoreClosure e reverse (Args ! 0) a aI b bI opts (s\<lparr>entered := True\<rparr>)"
proof -
  from assms have len: "length Args \<ge> 3" and a: "parseFloatRange e (Args ! 1) \<noteq> None"
    and b: "parseFloatRange e (Args ! 2) \<noteq> None" and o: "rangeOptsOk e (drop 3 Args)"
    by (auto simp: wellFormed_def)
  from o obtain opts where "zrangebyscoreOpts e (drop 3 Args)
      \<lparr>withLimit = False, limitStart = 0, limitEnd = 0, withScores = False\<rparr> = Inr opts"
    using zrangebyscoreOpts_Inr_iff by blast
  then show ?thesis using len a b
    by (auto simp: makeCmdZrangebyscore_def withTx_def; blast)
qed

lemma makeCmdZrank_wf:
  assumes "wellFormed e ''ZRANK'' Args \<or> wellFormed e ''ZREVRANK'' Args"
  shows "makeCmdZrank e cmd reverse Args s =
       zrankClosure e reverse (Args ! 0) (Args ! 1) (s\<lparr>entered := True\<rparr>)"
  using assms by (auto simp: wellFormed_def makeCmdZrank_def withTx_def)

lemma cmdZrem_wf:
  assumes "wellFormed e ''ZREM'' Args"
  shows "cmdZrem e Args s = zremClosure e (Args ! 0) (drop 1 Args) (s\<lparr>entered := True\<rparr>)"
  using assms by (auto simp: wellFormed_def cmdZrem_def withTx_def)

lemma cmdZscore_wf:
  assumes "wellFormed e ''ZSCORE'' Args"
  shows "cmdZscore e Args s = zscoreClosure e (Args ! 0) (Args ! 1) (s\<lparr>entered := True\<rparr>)"
  using assms by (auto simp: wellFormed_def cmdZscore_def withTx_def)

text \<open>The closures on a key that is not there.\<close>

lemma closures_missing:
  assumes "\<not> exists (db s) key"
  shows "zcardClosure e key s = emit WriteZero s"
    and "zcountClosure e key a aI b bI s = emit WriteZero s"
    and "zrangeClosure e reverse key start end' ws s = emit (WriteBulkLen 0) s"
    and "zrangebylexClosure e key mn mnI mx mxI lopts s = emit (WriteBulkLen 0) s"
    and "zrangebyscoreClosure e reverse key a aI b bI opts s = emit (WriteBulkLen 0) s"
    and "zrankClosure e reverse key mem s = emit WriteNil s"
    and "zremClosure e key mems s = emit WriteZero s"
    and "zscoreClosure e key mem s = emit WriteNil s"
  using assms
  by (simp_all add: zcardClosure_def zcountClosure_def zrangeClosure_def zrangebylexClosure_def
      zrangebyscoreClosure_def zrankClosure_def zremClosure_def zscoreClosure_def)

text \<open>The closures on a key of another type.\<close>

lemma closures_wrongtype:
  assumes "exists (db s) key" and "t (db s) key \<noteq> ''zset''"
  shows "zaddClosure e key elems s = emit (WriteErrorString (ErrWrongType e)) s"
    and "zcardClosure e key s = emit (WriteErrorString (ErrWrongType e)) s"
    and "zcountClosure e key a aI b bI s = emit (WriteErrorString (ErrWrongType e)) s"
    and "zrangeClosure e reverse key start end' ws s = emit (WriteErrorString (ErrWrongType e)) s"
    and "zrangebylexClosure e key mn mnI mx mxI lopts s = emit (WriteErrorString (ErrWrongType e)) s"
    and "zrangebyscoreClosure e reverse key a aI b bI opts s = emit (WriteErrorString (ErrWrongType e)) s"
    and "zrankClosure e reverse key mem s = emit (WriteErrorString (ErrWrongType e)) s"
    and "zremClosure e key mems s = emit (WriteErrorString (ErrWrongType e)) s"
    and "zscoreClosure e key mem s = emit (WriteErrorString (ErrWrongType e)) s"
  using assms
  by (simp_all add: zaddClosure_def zcardClosure_def zcountClosure_def zrangeClosure_def zrangebylexClosure_def
      zrangebyscoreClosure_def zrankClosure_def zremClosure_def zscoreClosure_def)

lemma commandsSortedSet_cases:
  assumes "(name, h) \<in> set (commandsSortedSet e)"
  obtains "name = ''ZADD''" "h = cmdZadd e"
  | "name = ''ZCARD''" "h = cmdZcard e"
  | "name = ''ZCOUNT''" "h = cmdZcount e"
  | "name = ''ZRANGE''" "h = makeCmdZrange e ''zrange'' False"
  | "name = ''ZRANGEBYLEX''" "h = cmdZrangebylex e"
  | "name = ''ZRANGEBYSCORE''" "h = makeCmdZrangebyscore e ''zrangebyscore'' False"
  | "name = ''ZRANK''" "h = makeCmdZrank e ''zrank'' False"
  | "name = ''ZREM''" "h = cmdZrem e"
  | "name = ''ZREVRANGE''" "h = makeCmdZrange e ''zrevrange'' True"
  | "name = ''ZREVRANGEBYSCORE''" "h = makeCmdZrangebyscore e ''zrevrangebyscore'' True"
  | "name = ''ZREVRANK''" "h = makeCmdZrank e ''zrevrank'' True"
  | "name = ''ZSCORE''" "h = cmdZscore e"
proof -
  from assms have
    "(name = ''ZADD'' \<and> h = cmdZadd e)
     \<or> (name = ''ZCARD'' \<and> h = cmdZcard e)
     \<or> (name = ''ZCOUNT'' \<and> h = cmdZcount e)
     \<or> (name = ''ZRANGE'' \<and> h = makeCmdZrange e ''zrange'' False)
     \<or> (name = ''ZRANGEBYLEX'' \<and> h = cmdZrangebylex e)
     \<or> (name = ''ZRANGEBYSCORE'' \<and> h = makeCmdZrangebyscore e ''zrangebyscore'' False)
     \<or> (name = ''ZRANK'' \<and> h = makeCmdZrank e ''zrank'' False)
     \<or> (name = ''ZREM'' \<and> h = cmdZrem e)
     \<or> (name = ''ZREVRANGE'' \<and> h = makeCmdZrange e ''zrevrange'' True)
     \<or> (name = ''ZREVRANGEBYSCORE'' \<and> h = makeCmdZrangebyscore e ''zrevrangebyscore'' True)
     \<or> (name = ''ZREVRANK'' \<and> h = makeCmdZrank e ''zrevrank'' True)
     \<or> (name = ''ZSCORE'' \<and> h = cmdZscore e)"
    unfolding commandsSortedSet_def by (simp only: list.set insert_iff empty_iff prod.inject simp_thms)
  then show thesis by (elim disjE conjE) (erule (1) that)+
qed

lemma zaddClosure_missing_state:
  "\<not> exists (db s) key \<Longrightarrow>
   \<exists>n d'. zaddClosure e key elems s = emit (WriteInt n) (setDb d' s)"
  by (auto simp: zaddClosure_def split: prod.splits)

text \<open>A command that is not well formed is turned away before its closure.\<close>

lemma malformed_not_entered:
  assumes reg: "(name, h) \<in> set (commandsSortedSet e)"
    and bad: "\<not> wellFormed e name Args"
    and fresh: "\<not> entered s"
  shows "\<not> entered (h Args s)"
  using reg
proof (cases rule: commandsSortedSet_cases)
  case 1
  have "\<not> length Args < 3 \<Longrightarrow> even (length (drop 1 Args)) \<Longrightarrow>
        \<exists>f. zaddElems e (drop 1 Args) [] = Inl f"
  proof -
    assume l: "\<not> length Args < 3" and ev: "even (length (drop 1 Args))"
    then have "\<not> (\<forall>p \<in> set (argPairs (drop 1 Args)). ParseFloat e (fst p) \<noteq> None)"
      using bad 1 by (auto simp: wellFormed_def)
    then have "\<not> (\<exists>elems. zaddElems e (drop 1 Args) [] = Inr elems)"
      using zaddElems_Inr_iff[of e "drop 1 Args" "[]"] by blast
    then show ?thesis by (cases "zaddElems e (drop 1 Args) []") auto
  qed
  then show ?thesis using 1 fresh
    by (auto simp: cmdZadd_def Let_def even_iff_mod_2_eq_zero)
next
  case 2
  then show ?thesis using bad fresh by (auto simp: wellFormed_def cmdZcard_def)
next
  case 3
  then show ?thesis using bad fresh
    by (auto simp: wellFormed_def cmdZcount_def split: option.splits)
next
  case 4
  then show ?thesis using bad fresh
    by (auto simp: wellFormed_def makeCmdZrange_def Let_def split: option.splits if_splits)
next
  case 5
  have "\<not> limitOptsOk e (drop 3 Args) \<Longrightarrow>
        \<exists>f. zrangebylexOpts e (drop 3 Args)
               \<lparr>withLimit = False, limitStart = 0, limitEnd = 0\<rparr> = Inl f"
    using zrangebylexOpts_Inr_iff[of e "drop 3 Args"]
    by (cases "zrangebylexOpts e (drop 3 Args)
                 \<lparr>withLimit = False, limitStart = 0, limitEnd = 0\<rparr>") auto
  then show ?thesis using 5 bad fresh
    by (auto simp: wellFormed_def cmdZrangebylex_def split: option.splits)
next
  case 6
  have "\<not> rangeOptsOk e (drop 3 Args) \<Longrightarrow>
        \<exists>f. zrangebyscoreOpts e (drop 3 Args)
               \<lparr>withLimit = False, limitStart = 0, limitEnd = 0, withScores = False\<rparr> = Inl f"
    using zrangebyscoreOpts_Inr_iff[of e "drop 3 Args"]
    by (cases "zrangebyscoreOpts e (drop 3 Args)
                 \<lparr>withLimit = False, limitStart = 0, limitEnd = 0, withScores = False\<rparr>") auto
  then show ?thesis using 6 bad fresh
    by (auto simp: wellFormed_def makeCmdZrangebyscore_def split: option.splits)
next
  case 7
  then show ?thesis using bad fresh by (auto simp: wellFormed_def makeCmdZrank_def)
next
  case 8
  then show ?thesis using bad fresh by (auto simp: wellFormed_def cmdZrem_def)
next
  case 9
  then show ?thesis using bad fresh
    by (auto simp: wellFormed_def makeCmdZrange_def Let_def split: option.splits if_splits)
next
  case 10
  have "\<not> rangeOptsOk e (drop 3 Args) \<Longrightarrow>
        \<exists>f. zrangebyscoreOpts e (drop 3 Args)
               \<lparr>withLimit = False, limitStart = 0, limitEnd = 0, withScores = False\<rparr> = Inl f"
    using zrangebyscoreOpts_Inr_iff[of e "drop 3 Args"]
    by (cases "zrangebyscoreOpts e (drop 3 Args)
                 \<lparr>withLimit = False, limitStart = 0, limitEnd = 0, withScores = False\<rparr>") auto
  then show ?thesis using 10 bad fresh
    by (auto simp: wellFormed_def makeCmdZrangebyscore_def split: option.splits)
next
  case 11
  then show ?thesis using bad fresh by (auto simp: wellFormed_def makeCmdZrank_def)
next
  case 12
  then show ?thesis using bad fresh by (auto simp: wellFormed_def cmdZscore_def)
qed

section \<open>Keys that do not exist\<close>

text \<open>
  Claim C3: a sorted-set command on a key that does not exist replies with its own empty
  result (the integer 0 for ZCARD, ZCOUNT and ZREM, nil for ZSCORE, ZRANK and ZREVRANK,
  the empty array for the range commands) and never with the wrong-type error. For every
  registered handler and all well-formed arguments: the handler enters its closure,
  writes exactly that reply and changes nothing else. ZADD, which has no empty result,
  enters its closure and writes an integer, the count of added members.
\<close>

theorem missing_key_empty_reply:
  assumes reg: "(name, h) \<in> set (commandsSortedSet e)"
    and missing: "\<not> exists (db s) (Args ! 0)"
    and wf: "wellFormed e name Args"
  shows "if name = ''ZADD''
         then (\<exists>n d'. h Args s =
                 s\<lparr>dbs := (dbs s)(selectedDB (ctx s) := d'), entered := True,
                   out := out s @ [WriteInt n]\<rparr>)
         else h Args s = s\<lparr>entered := True, out := out s @ [emptyReply name]\<rparr>"
proof -
  have m: "\<not> exists (db (s\<lparr>entered := True\<rparr>)) (Args ! 0)" using missing by simp
  from reg show ?thesis
  proof (cases rule: commandsSortedSet_cases)
    case 1
    from wf 1 obtain elems where
      "cmdZadd e Args s = zaddClosure e (Args ! 0) elems (s\<lparr>entered := True\<rparr>)"
      using cmdZadd_wf by blast
    moreover from zaddClosure_missing_state[OF m] obtain n d' where
      "zaddClosure e (Args ! 0) elems (s\<lparr>entered := True\<rparr>)
         = emit (WriteInt n) (setDb d' (s\<lparr>entered := True\<rparr>))"
      by blast
    ultimately have "cmdZadd e Args s =
        s\<lparr>dbs := (dbs s)(selectedDB (ctx s) := d'), entered := True,
          out := out s @ [WriteInt n]\<rparr>"
      by (simp add: emit_def setDb_def)
    then show ?thesis using 1 by auto
  next
    case 2
    then show ?thesis using cmdZcard_wf[of e Args s] wf closures_missing[OF m]
      by (simp add: emptyReply_def emit_def)
  next
    case 3
    then show ?thesis using cmdZcount_wf[of e Args s] wf closures_missing[OF m]
      by (auto simp add: emptyReply_def emit_def)
  next
    case 4
    then show ?thesis using makeCmdZrange_wf[of e Args _ _ s] wf closures_missing[OF m]
      by (auto simp add: emptyReply_def emit_def)
  next
    case 5
    then show ?thesis using cmdZrangebylex_wf[of e Args s] wf closures_missing[OF m]
      by (auto simp add: emptyReply_def emit_def)
  next
    case 6
    then show ?thesis using makeCmdZrangebyscore_wf[of e Args _ _ s] wf closures_missing[OF m]
      by (auto simp add: emptyReply_def emit_def)
  next
    case 7
    then show ?thesis using makeCmdZrank_wf[of e Args _ _ s] wf closures_missing[OF m]
      by (auto simp add: emptyReply_def emit_def)
  next
    case 8
    then show ?thesis using cmdZrem_wf[of e Args s] wf closures_missing[OF m]
      by (auto simp add: emptyReply_def emit_def)
  next
    case 9
    then show ?thesis using makeCmdZrange_wf[of e Args _ _ s] wf closures_missing[OF m]
      by (auto simp add: emptyReply_def emit_def)
  next
    case 10
    then show ?thesis using makeCmdZrangebyscore_wf[of e Args _ _ s] wf closures_missing[OF m]
      by (auto simp add: emptyReply_def emit_def)
  next
    case 11
    then show ?thesis using makeCmdZrank_wf[of e Args _ _ s] wf closures_missing[OF m]
      by (auto simp add: emptyReply_def emit_def)
  next
    case 12
    then show ?thesis using cmdZscore_wf[of e Args s] wf closures_missing[OF m]
      by (auto simp add: emptyReply_def emit_def)
  qed
qed

text \<open>The spec's scenario: \<^verbatim>\<open>ZSCORE nope x\<close> is nil, \<^verbatim>\<open>ZCARD nope\<close> is 0 and
  \<^verbatim>\<open>ZRANGE nope 0 -1\<close> is the empty array.\<close>

theorem missing_key_empty_reply_witness:
  "cmdZscore testEnv [''nope'', ''x''] (initState abcDB)
     = (initState abcDB)\<lparr>entered := True, out := [WriteNil]\<rparr>
   \<and> cmdZcard testEnv [''nope''] (initState abcDB)
     = (initState abcDB)\<lparr>entered := True, out := [WriteZero]\<rparr>
   \<and> makeCmdZrange testEnv ''zrange'' False [''nope'', ''0'', ''-1''] (initState abcDB)
     = (initState abcDB)\<lparr>entered := True, out := [WriteBulkLen 0]\<rparr>"
proof -
  have reg: "(''ZSCORE'', cmdZscore testEnv) \<in> set (commandsSortedSet testEnv)"
    "(''ZCARD'', cmdZcard testEnv) \<in> set (commandsSortedSet testEnv)"
    "(''ZRANGE'', makeCmdZrange testEnv ''zrange'' False) \<in> set (commandsSortedSet testEnv)"
    by (simp_all add: commandsSortedSet_def)
  have m: "\<not> exists (db (initState abcDB)) ([''nope'', ''x''] ! 0)"
    "\<not> exists (db (initState abcDB)) ([''nope''] ! 0)"
    "\<not> exists (db (initState abcDB)) ([''nope'', ''0'', ''-1''] ! 0)"
    by code_simp+
  have w: "wellFormed testEnv ''ZSCORE'' [''nope'', ''x'']"
    "wellFormed testEnv ''ZCARD'' [''nope'']"
    "wellFormed testEnv ''ZRANGE'' [''nope'', ''0'', ''-1'']"
    by code_simp+
  have o: "out (initState abcDB) = []" by (simp add: initState_def)
  from missing_key_empty_reply[OF reg(1) m(1) w(1)]
    missing_key_empty_reply[OF reg(2) m(2) w(2)]
    missing_key_empty_reply[OF reg(3) m(3) w(3)]
  show ?thesis by (simp add: emptyReply_def o)
qed

section \<open>The LIMIT clause\<close>


lemma fold_writeElem:
  "fold (writeElem e ws) els s = s\<lparr>out := out s @ concat (map (elemReply e ws) els)\<rparr>"
  by (induction els arbitrary: s) (simp_all add: emit_def writeElem_def elemReply_def Let_def)



lemma zrangebyscoreClosure_zset:
  "exists (db s) key \<Longrightarrow> t (db s) key = ''zset'' \<Longrightarrow>
   zrangebyscoreClosure e reverse key a aI b bI opts s =
     s\<lparr>out := out s @ elemsReply e (withScores opts)
        (applyLimit (withLimit opts) (limitStart opts) (limitEnd opts)
           (if reverse then rev (withSSRange (zelements (db s) key) b bI a aI)
            else withSSRange (zelements (db s) key) a aI b bI))\<rparr>"
  by (simp add: zrangebyscoreClosure_def Let_def fold_writeElem elemsReply_def emit_def
      reverseElems_rev)

lemma zrangebylexOpts_limit:
  "ToLower e l = ''limit'' \<Longrightarrow> Atoi e x = Some off \<Longrightarrow> Atoi e y = Some cnt \<Longrightarrow>
   zrangebylexOpts e [l, x, y] opts = Inr (opts\<lparr>withLimit := True, limitStart := off, limitEnd := cnt\<rparr>)"
  by simp

lemma zrangebyscoreOpts_limit:
  "ToLower e l = ''limit'' \<Longrightarrow> Atoi e x = Some off \<Longrightarrow> Atoi e y = Some cnt \<Longrightarrow>
   zrangebyscoreOpts e [l, x, y] opts = Inr (opts\<lparr>withLimit := True, limitStart := off, limitEnd := cnt\<rparr>)"
  by simp



section \<open>Keys of another type\<close>

text \<open>
  Claim C4: a sorted-set command, ZADD included, on a key that exists and does not hold an
  ordered set replies with the wrong-type error from inside its closure, leaves the
  keyspace as it was and does not set the dirty flag. For every registered handler and
  all well-formed arguments: the closure is entered, and the only other change to the
  state is that the wrong-type error has been written.
\<close>

theorem wrong_type_error:
  assumes reg: "(name, h) \<in> set (commandsSortedSet e)"
    and there: "exists (db s) (Args ! 0)"
    and other: "t (db s) (Args ! 0) \<noteq> ''zset''"
    and wf: "wellFormed e name Args"
  shows "h Args s = s\<lparr>entered := True, out := out s @ [WriteErrorString (ErrWrongType e)]\<rparr>
    \<and> entered (h Args s)
    \<and> dbs (h Args s) = dbs s \<and> dirty (ctx (h Args s)) = dirty (ctx s)"
proof -
  have x: "exists (db (s\<lparr>entered := True\<rparr>)) (Args ! 0)" using there by simp
  have y: "t (db (s\<lparr>entered := True\<rparr>)) (Args ! 0) \<noteq> ''zset''" using other by simp
  note w = closures_wrongtype[OF x y]
  have "h Args s = s\<lparr>entered := True, out := out s @ [WriteErrorString (ErrWrongType e)]\<rparr>"
    using reg
  proof (cases rule: commandsSortedSet_cases)
    case 1
    then show ?thesis using cmdZadd_wf[of e Args s] wf w
      by (auto simp add: emit_def)
  next
    case 2
    then show ?thesis using cmdZcard_wf[of e Args s] wf w
      by (simp add: emit_def)
  next
    case 3
    then show ?thesis using cmdZcount_wf[of e Args s] wf w
      by (auto simp add: emit_def)
  next
    case 4
    then show ?thesis using makeCmdZrange_wf[of e Args _ _ s] wf w
      by (auto simp add: emit_def)
  next
    case 5
    then show ?thesis using cmdZrangebylex_wf[of e Args s] wf w
      by (auto simp add: emit_def)
  next
    case 6
    then show ?thesis using makeCmdZrangebyscore_wf[of e Args _ _ s] wf w
      by (auto simp add: emit_def)
  next
    case 7
    then show ?thesis using makeCmdZrank_wf[of e Args _ _ s] wf w
      by (auto simp add: emit_def)
  next
    case 8
    then show ?thesis using cmdZrem_wf[of e Args s] wf w
      by (auto simp add: emit_def)
  next
    case 9
    then show ?thesis using makeCmdZrange_wf[of e Args _ _ s] wf w
      by (auto simp add: emit_def)
  next
    case 10
    then show ?thesis using makeCmdZrangebyscore_wf[of e Args _ _ s] wf w
      by (auto simp add: emit_def)
  next
    case 11
    then show ?thesis using makeCmdZrank_wf[of e Args _ _ s] wf w
      by (auto simp add: emit_def)
  next
    case 12
    then show ?thesis using cmdZscore_wf[of e Args s] wf w
      by (auto simp add: emit_def)
  qed
  then show ?thesis by simp
qed

text \<open>The spec's scenario: \<^verbatim>\<open>ZADD s 1 a\<close> and \<^verbatim>\<open>ZCARD s\<close> on the key \<open>s\<close> that holds a plain
  string.\<close>

theorem wrong_type_error_witness:
  "cmdZadd testEnv [''s'', ''1'', ''a''] (initState abcDB)
     = (initState abcDB)\<lparr>entered := True,
          out := [WriteErrorString
                   ''WRONGTYPE Operation against a key holding the wrong kind of value'']\<rparr>
   \<and> dbs (cmdZadd testEnv [''s'', ''1'', ''a''] (initState abcDB)) = dbs (initState abcDB)
   \<and> dirty (ctx (cmdZadd testEnv [''s'', ''1'', ''a''] (initState abcDB))) = False
   \<and> cmdZcard testEnv [''s''] (initState abcDB)
     = (initState abcDB)\<lparr>entered := True,
          out := [WriteErrorString
                   ''WRONGTYPE Operation against a key holding the wrong kind of value'']\<rparr>"
proof -
  have reg: "(''ZADD'', cmdZadd testEnv) \<in> set (commandsSortedSet testEnv)"
    "(''ZCARD'', cmdZcard testEnv) \<in> set (commandsSortedSet testEnv)"
    by (simp_all add: commandsSortedSet_def)
  have x: "exists (db (initState abcDB)) ([''s'', ''1'', ''a''] ! 0)"
    "exists (db (initState abcDB)) ([''s''] ! 0)" by code_simp+
  have y: "t (db (initState abcDB)) ([''s'', ''1'', ''a''] ! 0) \<noteq> ''zset''"
    "t (db (initState abcDB)) ([''s''] ! 0) \<noteq> ''zset''" by code_simp+
  have w: "wellFormed testEnv ''ZADD'' [''s'', ''1'', ''a'']"
    "wellFormed testEnv ''ZCARD'' [''s'']" by code_simp+
  have o: "out (initState abcDB) = []" "dirty (ctx (initState abcDB)) = False"
    "ErrWrongType testEnv = ''WRONGTYPE Operation against a key holding the wrong kind of value''"
    by (simp_all add: initState_def testEnv_def)
  from wrong_type_error[OF reg(1) x(1) y(1) w(1)] wrong_type_error[OF reg(2) x(2) y(2) w(2)]
  show ?thesis by (simp add: o)
qed

section \<open>The cluster stubs reply with fixed data\<close>

text \<open>
  Claim C10: CLUSTER SLOTS, CLUSTER KEYSLOT and CLUSTER NODES reply with fixed placeholder
  data, whatever their arguments and whatever the store holds; CLUSTER KEYSLOT writes the
  integer 163 for every key. The replies are the lists below, in which only the address
  of the server varies, and the databases are not touched.
\<close>

theorem cluster_stubs_fixed:
  "cmdClusterSlots e cmd args s =
     s\<lparr>entered := True,
       out := out s @ [WriteLen 1, WriteLen 3, WriteInt 0, WriteInt 16383, WriteLen 3,
                      WriteBulk (srvAddrIP e), WriteInt (srvAddrPort e),
                      WriteBulk ''09dbe9720cda62f7865eabc5fd8857c5d2678366'']\<rparr>
   \<and> cmdClusterKeySlot e cmd args s = s\<lparr>entered := True, out := out s @ [WriteInt 163]\<rparr>
   \<and> cmdClusterNodes e cmd args s =
       s\<lparr>entered := True,
         out := out s @ [WriteBulk
           ''e7d1eecce10fd6bb5eb35b9f99a514335d9ba9ca 127.0.0.1:7000@7000 myself,master - 0 0 1 connected 0-16383'']\<rparr>
   \<and> (length args = 2 \<and> ToUpper e (args ! 0) = ''KEYSLOT'' \<longrightarrow>
        cmdCluster e cmd args s = s\<lparr>entered := True, out := out s @ [WriteInt 163]\<rparr>)
   \<and> (length args = 1 \<and> ToUpper e (args ! 0) = ''SLOTS'' \<longrightarrow>
        cmdCluster e cmd args s = cmdClusterSlots e cmd [] s)
   \<and> (length args = 1 \<and> ToUpper e (args ! 0) = ''NODES'' \<longrightarrow>
        cmdCluster e cmd args s = cmdClusterNodes e cmd [] s)"
  by (simp add: cmdClusterSlots_def cmdClusterKeySlot_def cmdClusterNodes_def cmdCluster_def
      withTx_def emit_def)

theorem cluster_stubs_fixed_witness:
  "out (cmdCluster testEnv ''CLUSTER'' [''keyslot'', ''somekey''] (initState abcDB)) = [WriteInt 163]
   \<and> out (cmdCluster testEnv ''CLUSTER'' [''keyslot'', ''z''] (initState Map.empty)) = [WriteInt 163]"
proof -
  have h: "length [''keyslot'', ''somekey''] = 2
           \<and> ToUpper testEnv ([''keyslot'', ''somekey''] ! 0) = ''KEYSLOT''" by code_simp
  have h': "length [''keyslot'', ''z''] = 2
           \<and> ToUpper testEnv ([''keyslot'', ''z''] ! 0) = ''KEYSLOT''" by code_simp
  have o: "out (initState d) = []" for d by (simp add: initState_def)
  from cluster_stubs_fixed[of testEnv "''CLUSTER''" "[''keyslot'', ''somekey'']" "initState abcDB"] h
  have a: "cmdCluster testEnv ''CLUSTER'' [''keyslot'', ''somekey''] (initState abcDB)
           = (initState abcDB)\<lparr>entered := True, out := out (initState abcDB) @ [WriteInt 163]\<rparr>"
    by blast
  from cluster_stubs_fixed[of testEnv "''CLUSTER''" "[''keyslot'', ''z'']" "initState Map.empty"] h'
  have b: "cmdCluster testEnv ''CLUSTER'' [''keyslot'', ''z''] (initState Map.empty)
           = (initState Map.empty)\<lparr>entered := True, out := out (initState Map.empty) @ [WriteInt 163]\<rparr>"
    by blast
  show ?thesis by (simp add: a b o)
qed

section \<open>Reverse ranges\<close>

lemma fold_writeMember:
  "fold (writeMember e ws d key) ms s = s\<lparr>out := out s @ concat (map (memberReply e ws d key) ms)\<rparr>"
  by (induction ms arbitrary: s) (simp_all add: emit_def writeMember_def memberReply_def Let_def)

lemma zrangeClosure_zset:
  assumes "exists (db s) key" and "t (db s) key = ''zset''"
    and "redisRange e (int (length (zmembers (db s) key))) start end' False = (rs, re)"
    and "0 \<le> rs" and "rs \<le> re" and "re \<le> int (length (zmembers (db s) key))"
  shows "zrangeClosure e reverse key start end' ws s =
     s\<lparr>out := out s @ rankReply e ws (db s) key
        (take (nat re - nat rs)
           (drop (nat rs) (if reverse then rev (zmembers (db s) key) else zmembers (db s) key)))\<rparr>"
proof -
  have len: "int (min (length (zmembers (db s) key) - nat rs) (nat re - nat rs)) = re - rs"
    using assms(4-6) by auto
  show ?thesis
    using assms len
    by (simp add: zrangeClosure_def Let_def reverseSlice_rev fold_writeMember rankReply_def
        emit_def)
qed

lemma rev_window:
  assumes "rs \<le> re" and "re \<le> length ms"
  shows "take (re - rs) (drop rs (rev ms)) = rev (take (re - rs) (drop (length ms - re) ms))"
proof -
  have "rev (take (re - rs) (drop (length ms - re) ms))
        = drop (length (drop (length ms - re) ms) - (re - rs)) (rev (drop (length ms - re) ms))"
    by (simp only: rev_take)
  also have "\<dots> = drop rs (take re (rev ms))"
    using assms by (simp add: rev_drop)
  also have "\<dots> = take (re - rs) (drop rs (rev ms))"
    by (simp add: drop_take)
  finally show ?thesis by simp
qed

lemma makeCmdZrange_plain:
  assumes "Atoi e a = Some start" and "Atoi e b = Some end'"
    and "rest = [] \<and> \<not> ws \<or> (\<exists>w. rest = [w] \<and> ToLower e w = ''withscores'' \<and> ws)"
  shows "makeCmdZrange e cmd reverse (key # a # b # rest) s =
           zrangeClosure e reverse key start end' ws (s\<lparr>entered := True\<rparr>)"
  using assms by (auto simp: makeCmdZrange_def withTx_def)

lemma makeCmdZrangebyscore_plain:
  assumes "parseFloatRange e a = Some (mn, mnI)" and "parseFloatRange e b = Some (mx, mxI)"
    and "zrangebyscoreOpts e rest
           \<lparr>withLimit = False, limitStart = 0, limitEnd = 0, withScores = False\<rparr> = Inr opts"
  shows "makeCmdZrangebyscore e cmd reverse (key # a # b # rest) s =
           zrangebyscoreClosure e reverse key mn mnI mx mxI opts (s\<lparr>entered := True\<rparr>)"
  using assms by (simp add: makeCmdZrangebyscore_def withTx_def)

text \<open>
  Claim C6: for the same logical bounds, ZREVRANGE and ZREVRANGEBYSCORE return the exact
  reverse of what ZRANGE and ZRANGEBYSCORE return, and the by-score variant gets there by
  swapping the two bounds before filtering and reversing the filtered sequence. On a key
  that holds an ordered set:
  \<^item> by score, the bounds \<open>min\<close> and \<open>max\<close> are the same logical bounds when ZRANGEBYSCORE gets
    them as \<open>min max\<close> and ZREVRANGEBYSCORE as \<open>max min\<close>; without a LIMIT clause, and with
    WITHSCORES or without it, the second reply is the first with its elements reversed;
  \<^item> the closure of ZREVRANGEBYSCORE filters with the bounds swapped and reverses the
    result, before any LIMIT;
  \<^item> by rank, ZREVRANGE takes its window from the reversed members, so two windows are the
    same logical bounds when \<^verbatim>\<open>redisRange\<close> resolves the one of ZRANGE to the mirror image of
    the one of ZREVRANGE (as \<open>0 -1\<close> and \<open>0 -1\<close>, or \<open>-2 -1\<close> and \<open>0 1\<close>); then the second reply
    is the first with its members reversed.
\<close>

theorem reverse_ranges:
  assumes there: "exists (db s) key" and zset: "t (db s) key = ''zset''"
  shows
    "(\<forall>a b mn mnI mx mxI rest opts.
        parseFloatRange e a = Some (mn, mnI) \<and> parseFloatRange e b = Some (mx, mxI)
        \<and> zrangebyscoreOpts e rest
             \<lparr>withLimit = False, limitStart = 0, limitEnd = 0, withScores = False\<rparr> = Inr opts
        \<and> \<not> withLimit opts \<longrightarrow>
        makeCmdZrangebyscore e ''zrangebyscore'' False (key # a # b # rest) s =
          s\<lparr>entered := True,
            out := out s @ elemsReply e (withScores opts)
              (withSSRange (zelements (db s) key) mn mnI mx mxI)\<rparr>
        \<and> makeCmdZrangebyscore e ''zrevrangebyscore'' True (key # b # a # rest) s =
          s\<lparr>entered := True,
            out := out s @ elemsReply e (withScores opts)
              (rev (withSSRange (zelements (db s) key) mn mnI mx mxI))\<rparr>)
   \<and> (\<forall>a aI b bI opts.
        zrangebyscoreClosure e True key a aI b bI opts s =
          s\<lparr>out := out s @ elemsReply e (withScores opts)
            (applyLimit (withLimit opts) (limitStart opts) (limitEnd opts)
               (rev (withSSRange (zelements (db s) key) b bI a aI)))\<rparr>)
   \<and> (\<forall>a b a' b' start end' start' end'' rs re ws rest.
        Atoi e a = Some start \<and> Atoi e b = Some end'
        \<and> Atoi e a' = Some start' \<and> Atoi e b' = Some end''
        \<and> (rest = [] \<and> \<not> ws \<or> (\<exists>w. rest = [w] \<and> ToLower e w = ''withscores'' \<and> ws))
        \<and> redisRange e (int (length (zmembers (db s) key))) start end' False = (rs, re)
        \<and> 0 \<le> rs \<and> rs \<le> re \<and> re \<le> int (length (zmembers (db s) key))
        \<and> redisRange e (int (length (zmembers (db s) key))) start' end'' False
             = (int (length (zmembers (db s) key)) - re, int (length (zmembers (db s) key)) - rs)
        \<longrightarrow>
        makeCmdZrange e ''zrange'' False (key # a' # b' # rest) s =
          s\<lparr>entered := True,
            out := out s @ rankReply e ws (db s) key
              (take (nat re - nat rs)
                 (drop (length (zmembers (db s) key) - nat re) (zmembers (db s) key)))\<rparr>
        \<and> makeCmdZrange e ''zrevrange'' True (key # a # b # rest) s =
          s\<lparr>entered := True,
            out := out s @ rankReply e ws (db s) key
              (rev (take (nat re - nat rs)
                 (drop (length (zmembers (db s) key) - nat re) (zmembers (db s) key))))\<rparr>)"
proof (intro conjI allI impI; (elim conjE)?)
  have x: "exists (db (s\<lparr>entered := True\<rparr>)) key" "t (db (s\<lparr>entered := True\<rparr>)) key = ''zset''"
    using there zset by simp_all
  {
    fix a b mn mnI mx mxI rest opts
    assume p: "parseFloatRange e a = Some (mn, mnI)" "parseFloatRange e b = Some (mx, mxI)"
      and o: "zrangebyscoreOpts e rest
             \<lparr>withLimit = False, limitStart = 0, limitEnd = 0, withScores = False\<rparr> = Inr opts"
      and nl: "\<not> withLimit opts"
    show "makeCmdZrangebyscore e ''zrangebyscore'' False (key # a # b # rest) s =
          s\<lparr>entered := True,
            out := out s @ elemsReply e (withScores opts)
              (withSSRange (zelements (db s) key) mn mnI mx mxI)\<rparr>"
      using nl
      by (simp add: makeCmdZrangebyscore_plain[OF p o] zrangebyscoreClosure_zset[OF x]
          applyLimit_def)
    show "makeCmdZrangebyscore e ''zrevrangebyscore'' True (key # b # a # rest) s =
          s\<lparr>entered := True,
            out := out s @ elemsReply e (withScores opts)
              (rev (withSSRange (zelements (db s) key) mn mnI mx mxI))\<rparr>"
      using nl
      by (simp add: makeCmdZrangebyscore_plain[OF p(2) p(1) o] zrangebyscoreClosure_zset[OF x]
          applyLimit_def)
  }
  {
    fix a aI b bI opts
    show "zrangebyscoreClosure e True key a aI b bI opts s =
          s\<lparr>out := out s @ elemsReply e (withScores opts)
            (applyLimit (withLimit opts) (limitStart opts) (limitEnd opts)
               (rev (withSSRange (zelements (db s) key) b bI a aI)))\<rparr>"
      by (simp add: zrangebyscoreClosure_zset[OF there zset])
  }
  {
    fix a b a' b' start end' start' end'' rs re ws rest
    let ?ms = "zmembers (db s) key"
    let ?n = "length ?ms"
    assume at: "Atoi e a = Some start" "Atoi e b = Some end'"
      and at': "Atoi e a' = Some start'" "Atoi e b' = Some end''"
      and r: "rest = [] \<and> \<not> ws \<or> (\<exists>w. rest = [w] \<and> ToLower e w = ''withscores'' \<and> ws)"
      and rr: "redisRange e (int ?n) start end' False = (rs, re)"
      and b: "0 \<le> rs" "rs \<le> re" "re \<le> int ?n"
      and rr': "redisRange e (int ?n) start' end'' False = (int ?n - re, int ?n - rs)"
    have rr1: "redisRange e (int (length (zmembers (db (s\<lparr>entered := True\<rparr>)) key))) start end' False
               = (rs, re)" using rr by simp
    have rr1': "redisRange e (int (length (zmembers (db (s\<lparr>entered := True\<rparr>)) key))) start' end'' False
               = (int ?n - re, int ?n - rs)" using rr' by simp
    have b1: "re \<le> int (length (zmembers (db (s\<lparr>entered := True\<rparr>)) key))" using b by simp
    have b': "0 \<le> int ?n - re" "int ?n - re \<le> int ?n - rs"
      "int ?n - rs \<le> int (length (zmembers (db (s\<lparr>entered := True\<rparr>)) key))"
      using b by simp_all
    have n1: "nat (int ?n - rs) - nat (int ?n - re) = nat re - nat rs" using b by auto
    have n2: "nat (int ?n - re) = ?n - nat re" using b by auto
    have n3: "nat (int ?n - rs) - (?n - nat re) = nat re - nat rs" using b by auto
    show "makeCmdZrange e ''zrange'' False (key # a' # b' # rest) s =
          s\<lparr>entered := True,
            out := out s @ rankReply e ws (db s) key
              (take (nat re - nat rs) (drop (?n - nat re) ?ms))\<rparr>"
      by (simp add: makeCmdZrange_plain[OF at' r]
          zrangeClosure_zset[OF x rr1' b'] n1 n2 n3)
    have w: "take (nat re - nat rs) (drop (nat rs) (rev ?ms))
             = rev (take (nat re - nat rs) (drop (?n - nat re) ?ms))"
      using b by (intro rev_window) auto
    show "makeCmdZrange e ''zrevrange'' True (key # a # b # rest) s =
          s\<lparr>entered := True,
            out := out s @ rankReply e ws (db s) key
              (rev (take (nat re - nat rs) (drop (?n - nat re) ?ms)))\<rparr>"
      by (simp add: makeCmdZrange_plain[OF at r]
          zrangeClosure_zset[OF x rr1 b(1) b(2) b1] w)
  }
qed

text \<open>On the set with the scores 1, 2, 3: \<^verbatim>\<open>ZRANGEBYSCORE z (1 3\<close> and
  \<^verbatim>\<open>ZREVRANGEBYSCORE z 3 (1\<close>, \<^verbatim>\<open>ZRANGE z -2 -1\<close> and \<^verbatim>\<open>ZREVRANGE z 0 1\<close>.\<close>

theorem reverse_ranges_witness:
  "out (makeCmdZrangebyscore testEnv ''zrangebyscore'' False [''z'', ''(1'', ''3'']
          (initState abcDB))
     = [WriteBulkLen 2, WriteString ''b'', WriteString ''c'']
   \<and> out (makeCmdZrangebyscore testEnv ''zrevrangebyscore'' True [''z'', ''3'', ''(1'']
            (initState abcDB))
     = [WriteBulkLen 2, WriteString ''c'', WriteString ''b'']
   \<and> out (makeCmdZrange testEnv ''zrange'' False [''z'', ''-2'', ''-1''] (initState abcDB))
     = [WriteBulkLen 2, WriteString ''b'', WriteString ''c'']
   \<and> out (makeCmdZrange testEnv ''zrevrange'' True [''z'', ''0'', ''1''] (initState abcDB))
     = [WriteBulkLen 2, WriteString ''c'', WriteString ''b'']"
proof -
  let ?s = "initState abcDB"
  let ?o = "\<lparr>withLimit = False, limitStart = 0, limitEnd = 0, withScores = False\<rparr>"
  let ?els = "withSSRange (zelements (db ?s) ''z'') (Finite 1) False (Finite 3) True"
  let ?ms = "take (nat 2 - nat 0)
               (drop (length (zmembers (db ?s) ''z'') - nat 2) (zmembers (db ?s) ''z''))"
  have x: "exists (db ?s) ''z''" by code_simp
  have y: "t (db ?s) ''z'' = ''zset''" by code_simp
  note T = reverse_ranges[OF x y, of testEnv]
  have p: "parseFloatRange testEnv ''(1'' = Some (Finite 1, False)
           \<and> parseFloatRange testEnv ''3'' = Some (Finite 3, True)
           \<and> zrangebyscoreOpts testEnv [] ?o = Inr ?o \<and> \<not> withLimit ?o"
    by code_simp
  note S = T[THEN conjunct1, rule_format, OF p]
  have "out (makeCmdZrangebyscore testEnv ''zrangebyscore'' False [''z'', ''(1'', ''3''] ?s)
        = out ?s @ elemsReply testEnv (withScores ?o) ?els"
    by (simp add: S[THEN conjunct1])
  also have "\<dots> = [WriteBulkLen 2, WriteString ''b'', WriteString ''c'']" by code_simp
  finally have s1:
    "out (makeCmdZrangebyscore testEnv ''zrangebyscore'' False [''z'', ''(1'', ''3''] ?s)
       = [WriteBulkLen 2, WriteString ''b'', WriteString ''c'']" .
  have "out (makeCmdZrangebyscore testEnv ''zrevrangebyscore'' True [''z'', ''3'', ''(1''] ?s)
        = out ?s @ elemsReply testEnv (withScores ?o) (rev ?els)"
    by (simp add: S[THEN conjunct2])
  also have "\<dots> = [WriteBulkLen 2, WriteString ''c'', WriteString ''b'']" by code_simp
  finally have s2:
    "out (makeCmdZrangebyscore testEnv ''zrevrangebyscore'' True [''z'', ''3'', ''(1''] ?s)
       = [WriteBulkLen 2, WriteString ''c'', WriteString ''b'']" .
  have q: "Atoi testEnv ''0'' = Some 0 \<and> Atoi testEnv ''1'' = Some 1
           \<and> Atoi testEnv ''-2'' = Some (- 2) \<and> Atoi testEnv ''-1'' = Some (- 1)
           \<and> ([] = ([] :: string list) \<and> \<not> False
               \<or> (\<exists>w. [] = [w] \<and> ToLower testEnv w = ''withscores'' \<and> False))
           \<and> redisRange testEnv (int (length (zmembers (db ?s) ''z''))) 0 1 False = (0, 2)
           \<and> (0::int) \<le> 0 \<and> (0::int) \<le> 2 \<and> 2 \<le> int (length (zmembers (db ?s) ''z''))
           \<and> redisRange testEnv (int (length (zmembers (db ?s) ''z''))) (- 2) (- 1) False
                = (int (length (zmembers (db ?s) ''z'')) - 2,
                   int (length (zmembers (db ?s) ''z'')) - 0)"
  proof -
    have "length (zmembers (db ?s) ''z'') = 3" by code_simp
    moreover have "Atoi testEnv ''0'' = Some 0" "Atoi testEnv ''1'' = Some 1"
      "Atoi testEnv ''-2'' = Some (- 2)" "Atoi testEnv ''-1'' = Some (- 1)"
      by code_simp+
    moreover have "redisRange testEnv 3 0 1 False = (0, 2)"
      "redisRange testEnv 3 (- 2) (- 1) False = (1, 3)"
      by (simp_all add: testEnv_def specRedisRange_def)
    ultimately show ?thesis by simp
  qed
  note R = T[THEN conjunct2, THEN conjunct2, rule_format, OF q]
  have "out (makeCmdZrange testEnv ''zrange'' False [''z'', ''-2'', ''-1''] ?s)
        = out ?s @ rankReply testEnv False (db ?s) ''z'' ?ms"
    by (simp add: R[THEN conjunct1])
  also have "\<dots> = [WriteBulkLen 2, WriteString ''b'', WriteString ''c'']" by code_simp
  finally have r1:
    "out (makeCmdZrange testEnv ''zrange'' False [''z'', ''-2'', ''-1''] ?s)
       = [WriteBulkLen 2, WriteString ''b'', WriteString ''c'']" .
  have "out (makeCmdZrange testEnv ''zrevrange'' True [''z'', ''0'', ''1''] ?s)
        = out ?s @ rankReply testEnv False (db ?s) ''z'' (rev ?ms)"
    by (simp add: R[THEN conjunct2])
  also have "\<dots> = [WriteBulkLen 2, WriteString ''c'', WriteString ''b'']" by code_simp
  finally have r2:
    "out (makeCmdZrange testEnv ''zrevrange'' True [''z'', ''0'', ''1''] ?s)
       = [WriteBulkLen 2, WriteString ''c'', WriteString ''b'']" .
  show ?thesis using s1 s2 r1 r2 by (intro conjI)
qed

section \<open>The empty score bound\<close>

lemma parseFloatRange_empty: "parseFloatRange e [] = Some (Finite 0, False)"
  by (simp add: parseFloatRange_def)

lemma parseFloatRange_paren0:
  "ParseFloat e ''0'' = Some (Finite 0) \<Longrightarrow> parseFloatRange e ''(0'' = Some (Finite 0, False)"
  by (simp add: parseFloatRange_def)

text \<open>
  Claim C8 says that an empty-string score bound of ZCOUNT, ZRANGEBYSCORE and
  ZREVRANGEBYSCORE is accepted without error and puts no constraint on its side of the
  range. It is accepted, but \<^verbatim>\<open>parseFloatRange\<close> returns the score 0 with the inclusive flag
  off for it, and nothing later treats that pair specially: it is the exclusive bound 0.
  On the set with \<open>a\<close> at -1 and \<open>b\<close> at 1, an empty minimum with the maximum 5 leaves \<open>a\<close>
  out, and an empty maximum with the minimum -5 leaves \<open>b\<close> out.
\<close>

theorem empty_bound_counterexample:
  "zelements (db (initState signsDB)) ''z''
     = [\<lparr>score = Finite (- 1), member = ''a''\<rparr>, \<lparr>score = Finite 1, member = ''b''\<rparr>]
   \<and> out (cmdZcount testEnv [''z'', [], ''5''] (initState signsDB)) = [WriteInt 1]
   \<and> out (makeCmdZrangebyscore testEnv ''zrangebyscore'' False [''z'', [], ''5'']
            (initState signsDB)) = [WriteBulkLen 1, WriteString ''b'']
   \<and> out (makeCmdZrangebyscore testEnv ''zrangebyscore'' False [''z'', ''-5'', []]
            (initState signsDB)) = [WriteBulkLen 1, WriteString ''a'']
   \<and> out (makeCmdZrangebyscore testEnv ''zrevrangebyscore'' True [''z'', ''5'', []]
            (initState signsDB)) = [WriteBulkLen 1, WriteString ''b'']"
  by code_simp

text \<open>
  Claim C8, amended: an empty-string score bound of ZCOUNT, ZRANGEBYSCORE and
  ZREVRANGEBYSCORE is accepted without error and is read as the exclusive bound 0: the
  command does what it does with the token \<^verbatim>\<open>(0\<close> in that place (where \<^verbatim>\<open>strconv.ParseFloat\<close>
  reads \<^verbatim>\<open>0\<close> as zero, as it does), and with both bounds empty it enters its closure with
  the exclusive bounds 0 and 0.
\<close>

theorem empty_bound_exclusive_zero:
  assumes zero: "ParseFloat e ''0'' = Some (Finite 0)"
  shows "parseFloatRange e [] = Some (Finite 0, False)
    \<and> cmdZcount e [key, [], b] s = cmdZcount e [key, ''(0'', b] s
    \<and> cmdZcount e [key, a, []] s = cmdZcount e [key, a, ''(0''] s
    \<and> makeCmdZrangebyscore e cmd reverse (key # [] # b # rest) s
        = makeCmdZrangebyscore e cmd reverse (key # ''(0'' # b # rest) s
    \<and> makeCmdZrangebyscore e cmd reverse (key # a # [] # rest) s
        = makeCmdZrangebyscore e cmd reverse (key # a # ''(0'' # rest) s
    \<and> cmdZcount e [key, [], []] s
        = withTx (zcountClosure e key (Finite 0) False (Finite 0) False) s
    \<and> makeCmdZrangebyscore e cmd reverse [key, [], []] s
        = withTx (zrangebyscoreClosure e reverse key (Finite 0) False (Finite 0) False
            \<lparr>withLimit = False, limitStart = 0, limitEnd = 0, withScores = False\<rparr>) s"
  using parseFloatRange_paren0[OF zero]
  by (simp add: parseFloatRange_empty cmdZcount_def makeCmdZrangebyscore_def eval_nat_numeral
      split: option.splits)

theorem empty_bound_exclusive_zero_witness:
  "cmdZcount testEnv [''z'', [], ''5''] (initState signsDB)
     = cmdZcount testEnv [''z'', ''(0'', ''5''] (initState signsDB)
   \<and> out (cmdZcount testEnv [''z'', ''(0'', ''5''] (initState signsDB)) = [WriteInt 1]"
proof -
  have z: "ParseFloat testEnv ''0'' = Some (Finite 0)" by code_simp
  have "out (cmdZcount testEnv [''z'', ''(0'', ''5''] (initState signsDB)) = [WriteInt 1]"
    by code_simp
  with empty_bound_exclusive_zero[OF z, of "''z''" "''5''" "initState signsDB"]
  show ?thesis by blast
qed

section \<open>ZADD with a member listed more than once\<close>

lemma lastScore_Cons:
  "lastScore e (a # b # rest) m =
     (if m \<in> snd ` set (argPairs rest) then lastScore e rest m
      else if b = m then ParseFloat e a else None)"
proof (cases "filter (\<lambda>(a, b). b = m) (argPairs rest) = []")
  case True
  then have "m \<notin> snd ` set (argPairs rest)" by (auto simp: filter_empty_conv)
  with True show ?thesis by (simp add: lastScore_def)
next
  case False
  then have "m \<in> snd ` set (argPairs rest)" by (force simp: filter_empty_conv)
  with False show ?thesis by (auto simp: lastScore_def split: list.splits)
qed

lemma zaddElems_even: "zaddElems e args acc = Inr elems \<Longrightarrow> even (length args)"
  by (induction e args acc rule: zaddElems.induct) (auto split: option.splits)

lemma zaddElems_props:
  "zaddElems e args acc = Inr elems \<Longrightarrow> distinct (map fst acc) \<Longrightarrow>
   distinct (map fst elems)
   \<and> fst ` set elems = fst ` set acc \<union> snd ` set (argPairs args)
   \<and> (\<forall>m. map_of elems m =
          (if m \<in> snd ` set (argPairs args) then lastScore e args m else map_of acc m))"
proof (induction e args acc rule: zaddElems.induct)
  case (1 e elems')
  then show ?case by (simp add: lastScore_def)
next
  case (2 e a elems')
  then show ?case by (simp split: option.splits)
next
  case (3 e a b args elems')
  from "3.prems"(1) obtain sc where sc: "ParseFloat e a = Some sc"
    and rec: "zaddElems e args (AList.update b sc elems') = Inr elems"
    by (auto split: option.splits)
  have d: "distinct (map fst (AList.update b sc elems'))"
    using "3.prems"(2) by (rule distinct_update)
  from "3.IH"[OF sc rec d] show ?case
    by (auto simp: lastScore_Cons sc update_conv' dom_update image_Un)
qed

lemma length_filter_distinct:
  "distinct xs \<Longrightarrow> length (filter P xs) = card {x \<in> set xs. P x}"
  using distinct_card[of "filter P xs"] by simp

lemma zaddAll_props:
  "distinct (map fst es) \<Longrightarrow> zaddAll key es d added = (d', n) \<Longrightarrow>
   n = added + int (length (filter (\<lambda>m. map_of (sortedSet d key) m = None) (map fst es)))
   \<and> (es \<noteq> [] \<longrightarrow> map_of (sortedSet d' key) = map_of (sortedSet d key) ++ map_of es)
   \<and> (es = [] \<longrightarrow> d' = d)"
proof (induction es arbitrary: d added)
  case Nil
  then show ?case by simp
next
  case (Cons p es)
  obtain m sc where p: "p = (m, sc)" by (cases p)
  let ?ss = "sortedSet d key"
  let ?P = "\<lambda>m'. map_of ?ss m' = None"
  define d1 where "d1 = d(key \<mapsto> ZsetVal (AList.update m sc ?ss))"
  define a1 where "a1 = (if map_of ?ss m = None then added + 1 else added)"
  have ss1: "sortedSet d1 key = AList.update m sc ?ss" by (simp add: d1_def sortedSet_def)
  have dist: "distinct (map fst es)" and notin: "m \<notin> fst ` set es"
    using Cons.prems(1) p by auto
  have rec: "zaddAll key es d1 a1 = (d', n)"
    using Cons.prems(2) p by (simp add: zadd_def Let_def d1_def a1_def)
  note IH = Cons.IH[OF dist rec, unfolded ss1]
  have same: "filter (\<lambda>m'. map_of (AList.update m sc ?ss) m' = None) (map fst es)
              = filter ?P (map fst es)"
    using notin by (intro filter_cong) (auto simp: update_conv')
  have cnt: "int (length (filter ?P (map fst (p # es))))
             = (if map_of ?ss m = None then 1 else 0) + int (length (filter ?P (map fst es)))"
    by (simp add: p)
  have "n = a1 + int (length (filter ?P (map fst es)))"
    using IH same by simp
  then have n: "n = added + int (length (filter ?P (map fst (p # es))))"
    unfolding cnt a1_def by simp
  have mp: "map_of (sortedSet d' key) = map_of ?ss ++ map_of (p # es)"
  proof (cases "es = []")
    case True
    then have "d' = d1" using IH by simp
    then show ?thesis using True by (simp add: ss1 p update_conv')
  next
    case False
    then have "map_of (sortedSet d' key) = map_of (AList.update m sc ?ss) ++ map_of es"
      using IH by simp
    also have "\<dots> = map_of ?ss ++ map_of (p # es)"
    proof
      fix k
      have "map_of es m = None" using notin by (simp add: map_of_eq_None_iff)
      then show "(map_of (AList.update m sc ?ss) ++ map_of es) k = (map_of ?ss ++ map_of (p # es)) k"
        by (auto simp: map_add_def update_conv' p split: option.splits)
    qed
    finally show ?thesis .
  qed
  show ?case
  proof (intro conjI impI)
    show "n = added + int (length (filter ?P (map fst (p # es))))" by (rule n)
    show "map_of (sortedSet d' key) = map_of ?ss ++ map_of (p # es)" by (rule mp)
    assume "p # es = []"
    then show "d' = d" by simp
  qed
qed

text \<open>
  Claim C9: when one ZADD call lists a member more than once, the score stored for it
  after the call is the last one given for it in argument order, the member counts at
  most once in the reply (once if it was absent before the call, not at all otherwise),
  and the reply is the number of distinct members of the call that were absent before
  it. For a call whose scores all parse, on a key that is absent or holds an ordered
  set, and whatever order the loop over the map \<^verbatim>\<open>elems\<close> visits its entries in.
\<close>

theorem zadd_duplicate_members:
  assumes parsed: "zaddElems e args [] = Inr elems" and some: "args \<noteq> []"
    and typed: "t (db s) key = ''zset'' \<or> \<not> exists (db s) key"
    and order: "mset (mapRange e elems) = mset elems"
  shows "entered (cmdZadd e (key # args) s)
    \<and> dirty (ctx (cmdZadd e (key # args) s)) = dirty (ctx s)
    \<and> out (cmdZadd e (key # args) s) =
        out s @ [WriteInt (int (length (filter (\<lambda>m. \<not> zexists (db s) key m)
                                          (remdups (map snd (argPairs args))))))]
    \<and> (\<forall>m \<in> snd ` set (argPairs args).
          zexists (db (cmdZadd e (key # args) s)) key m
          \<and> lastScore e args m = Some (zscore (db (cmdZadd e (key # args) s)) key m))"
proof -
  let ?es = "mapRange e elems"
  let ?ss = "sortedSet (db s) key"
  let ?absent = "\<lambda>m. map_of ?ss m = None"
  let ?members = "snd ` set (argPairs args)"
  from zaddElems_even[OF parsed] some have len: "\<not> length (key # args) < 3"
    by (cases args rule: argPairs.cases) auto
  from zaddElems_props[OF parsed] have
    dist: "distinct (map fst elems)" and
    dom: "fst ` set elems = ?members" and
    last: "\<And>m. m \<in> ?members \<Longrightarrow> map_of elems m = lastScore e args m"
    by auto
  have "mset (map fst ?es) = mset (map fst elems)" using order by (metis mset_map)
  then have dist': "distinct (map fst ?es)" using dist by (metis mset_eq_imp_distinct_iff)
  have set': "set ?es = set elems" using order by (rule mset_eq_setD)
  have mp': "map_of ?es = map_of elems"
    using dist dist' set' by (simp add: map_of_inject_set)
  have ne: "?es \<noteq> []"
  proof -
    from some zaddElems_even[OF parsed] have "?members \<noteq> {}"
      by (cases args rule: argPairs.cases) auto
    then show ?thesis using dom set' by auto
  qed
  obtain d' n where all: "zaddAll key ?es (db s) 0 = (d', n)" by (cases "zaddAll key ?es (db s) 0")
  from zaddAll_props[OF dist' all] ne have
    n: "n = int (length (filter ?absent (map fst ?es)))" and
    mp: "map_of (sortedSet d' key) = map_of ?ss ++ map_of elems"
    by (simp_all add: mp')
  have "length (filter ?absent (map fst ?es)) = card {x \<in> set (map fst ?es). ?absent x}"
    using dist' by (rule length_filter_distinct)
  also have "set (map fst ?es) = set (remdups (map snd (argPairs args)))"
    using dom set' by simp
  also have "card {x \<in> set (remdups (map snd (argPairs args))). ?absent x}
             = length (filter ?absent (remdups (map snd (argPairs args))))"
    by (rule length_filter_distinct[symmetric]) simp
  finally have cnt: "n = int (length (filter (\<lambda>m. \<not> zexists (db s) key m)
                                     (remdups (map snd (argPairs args)))))"
    using n by (simp add: zexists_def)
  have run: "cmdZadd e (key # args) s
             = emit (WriteInt n) (setDb d' (s\<lparr>entered := True\<rparr>))"
    using len parsed typed all zaddElems_even[OF parsed]
    by (auto simp: cmdZadd_def withTx_def zaddClosure_def Let_def even_iff_mod_2_eq_zero)
  have dbs': "db (cmdZadd e (key # args) s) = d'"
    by (simp add: run emit_def setDb_def db_def)
  have scores: "zexists d' key m \<and> lastScore e args m = Some (zscore d' key m)"
    if m: "m \<in> ?members" for m
  proof -
    from m dom have "m \<in> fst ` set elems" by simp
    then obtain sc where sc: "map_of elems m = Some sc"
      by (metis map_of_eq_None_iff not_None_eq)
    then have "map_of (sortedSet d' key) m = Some sc" by (simp add: mp map_add_def)
    moreover have "lastScore e args m = Some sc" using last[OF m] sc by simp
    ultimately show ?thesis by (simp add: zexists_def zscore_def)
  qed
  show ?thesis
    using scores by (simp add: dbs') (simp add: run emit_def setDb_def setDirty_def cnt)
qed

text \<open>\<^verbatim>\<open>ZADD z 1 x 2 x 5 a\<close> on the set that holds \<open>a\<close>, \<open>b\<close>, \<open>c\<close>: one new member, \<open>x\<close> at 2
  and \<open>a\<close> at 5.\<close>

theorem zadd_duplicate_members_witness:
  "out (cmdZadd testEnv [''z'', ''1'', ''x'', ''2'', ''x'', ''5'', ''a''] (initState abcDB))
     = [WriteInt 1]
   \<and> zscore (db (cmdZadd testEnv [''z'', ''1'', ''x'', ''2'', ''x'', ''5'', ''a'']
                   (initState abcDB))) ''z'' ''x'' = Finite 2
   \<and> zscore (db (cmdZadd testEnv [''z'', ''1'', ''x'', ''2'', ''x'', ''5'', ''a'']
                   (initState abcDB))) ''z'' ''a'' = Finite 5"
proof -
  let ?args = "[''1'', ''x'', ''2'', ''x'', ''5'', ''a'']"
  let ?s = "initState abcDB"
  let ?s' = "cmdZadd testEnv (''z'' # ?args) ?s"
  have parsed: "zaddElems testEnv ?args [] = Inr [(''x'', Finite 2), (''a'', Finite 5)]"
    by code_simp
  have some: "?args \<noteq> []" by simp
  have typed: "t (db ?s) ''z'' = ''zset'' \<or> \<not> exists (db ?s) ''z''" by code_simp
  have order: "mset (mapRange testEnv [(''x'', Finite 2), (''a'', Finite 5)])
               = mset [(''x'', Finite 2), (''a'', Finite 5)]"
    by (simp add: testEnv_def)
  note T = zadd_duplicate_members[OF parsed some typed order]
  have c: "out ?s @ [WriteInt (int (length (filter (\<lambda>m. \<not> zexists (db ?s) ''z'' m)
                                          (remdups (map snd (argPairs ?args))))))]
           = [WriteInt 1]"
    by code_simp
  have o: "out ?s' = [WriteInt 1]" using T c by simp
  have l: "lastScore testEnv ?args ''x'' = Some (Finite 2)"
    "lastScore testEnv ?args ''a'' = Some (Finite 5)"
    by code_simp+
  have mem: "''x'' \<in> snd ` set (argPairs ?args)" "''a'' \<in> snd ` set (argPairs ?args)"
    by simp_all
  from T have sc: "\<forall>m \<in> snd ` set (argPairs ?args).
      zexists (db ?s') ''z'' m \<and> lastScore testEnv ?args m = Some (zscore (db ?s') ''z'' m)"
    by blast
  from sc[rule_format, OF mem(1)] l(1) have x: "zscore (db ?s') ''z'' ''x'' = Finite 2" by simp
  from sc[rule_format, OF mem(2)] l(2) have a: "zscore (db ?s') ''z'' ''a'' = Finite 5" by simp
  show ?thesis using o x a by (intro conjI)
qed

end
